theory Spec2Isabelle
  imports Main "HOL-Library.Word" "HOL-Library.Signed_Division" "HOL-Library.Sublist"
begin

section \<open>Startup of the split-horizon dispatcher (main.go)\<close>

text \<open>
  The development embeds \<^verbatim>\<open>main.go\<close>: the option structure \<^verbatim>\<open>Opts\<close>, the
  startup procedure \<^verbatim>\<open>run\<close> and its helpers \<^verbatim>\<open>splitArgs\<close>,
  \<^verbatim>\<open>batchLoadDomainFile\<close> and \<^verbatim>\<open>batchLoadIPFile\<close>.

  Go's \<^verbatim>\<open>int\<close> is taken on a 64-bit target: a 64-bit two's complement word whose
  comparisons and division are the signed ones. \<^verbatim>\<open>time.Duration\<close> is an
  \<^verbatim>\<open>int64\<close> counting nanoseconds. A call of \<^verbatim>\<open>mlog.S().Fatalf\<close> logs and exits the
  process, so it ends \<^verbatim>\<open>run\<close> with a value of type \<open>fatal\<close> on the left of a sum.
\<close>

subsection \<open>Go values\<close>

type_synonym go_int = "64 word"
type_synonym duration = "64 word"

definition time_Nanosecond :: duration where
  "time_Nanosecond = 1"

definition time_Microsecond :: duration where
  "time_Microsecond = 1000 * time_Nanosecond"

definition time_Millisecond :: duration where
  "time_Millisecond = 1000 * time_Microsecond"

definition time_Second :: duration where
  "time_Second = 1000 * time_Millisecond"

definition time_Minute :: duration where
  "time_Minute = 60 * time_Second"

text \<open>The conversion \<^verbatim>\<open>time.Duration(n)\<close> of an \<^verbatim>\<open>int\<close>: both are 64 bits wide.\<close>

definition time_Duration :: "go_int \<Rightarrow> duration" where
  "time_Duration n = n"

text \<open>
  Go's quotient \<^verbatim>\<open>a / b\<close> of two \<^verbatim>\<open>int\<close>s truncates towards zero and wraps around
  in the one case that overflows. Division by zero panics; the only divisor in
  \<^verbatim>\<open>main.go\<close> is the constant 8.
\<close>

definition go_div :: "go_int \<Rightarrow> go_int \<Rightarrow> go_int" where
  "go_div a b = word_of_int (sint a sdiv sint b)"

text \<open>
  Errors. The libraries' errors are opaque messages; \<^verbatim>\<open>splitArgs\<close> wraps the parser's
  error with \<^verbatim>\<open>fmt.Errorf("invalid upstream address, %w", err)\<close>.
\<close>

datatype go_error = LibError string | InvalidUpstreamAddress go_error

subsection \<open>The options\<close>

record Opts =
  ServerAddr :: string
  CacheSize :: go_int
  LocalUpstream :: "string list"
  LocalIP :: "string list"
  LocalDomain :: "string list"
  LocalLatency :: go_int
  RemoteUpstream :: "string list"
  RemoteDomain :: "string list"
  Debug :: bool

subsection \<open>URLs\<close>

text \<open>
  The fields of \<^verbatim>\<open>net/url.URL\<close>. \<^verbatim>\<open>url.Parse\<close>, \<^verbatim>\<open>url.ParseQuery\<close> and
  \<^verbatim>\<open>URL.String\<close> belong to the standard library and are parameters of the model
  (see \<open>env\<close> below); \<^verbatim>\<open>URL.Query\<close> and \<^verbatim>\<open>Values.Get\<close> are written out.
\<close>

record URL =
  Scheme :: string
  Opaque :: string
  User :: "(string \<times> string option) option"
  Host :: string
  Path :: string
  RawPath :: string
  ForceQuery :: bool
  RawQuery :: string
  Fragment :: string
  RawFragment :: string

type_synonym Values = "string \<rightharpoonup> string list"

text \<open>\<^verbatim>\<open>Values.Get\<close>: the first value of the key, the empty string when there is none.\<close>

definition Values_Get :: "Values \<Rightarrow> string \<Rightarrow> string" where
  "Values_Get v key =
     (case v key of
        None \<Rightarrow> ''''
      | Some vs \<Rightarrow> (case vs of [] \<Rightarrow> '''' | x # _ \<Rightarrow> x))"

text \<open>\<^verbatim>\<open>strings.Contains(s, substr)\<close>: some suffix of \<open>s\<close> starts with \<open>substr\<close>.\<close>

fun strings_Contains :: "string \<Rightarrow> string \<Rightarrow> bool" where
  "strings_Contains [] substr = (substr = [])"
| "strings_Contains (c # cs) substr =
     (prefix substr (c # cs) \<or> strings_Contains cs substr)"

subsection \<open>The collaborators\<close>

text \<open>
  What \<^verbatim>\<open>run\<close> calls in other packages, as parameters: the URL functions of the
  standard library, the constructor of a fast upstream, the domain matcher and the
  netlist of the dispatcher library. \<open>'fu\<close>, \<open>'dm\<close> and \<open>'nl\<close> are the types of a fast
  upstream, a mix matcher and a netlist. A loader takes the object it fills and returns
  the filled object, or the error.
\<close>

record ('fu, 'dm, 'nl) env =
  url_Parse :: "string \<Rightarrow> go_error + URL"
  url_ParseQuery :: "string \<Rightarrow> Values"
  url_String :: "URL \<Rightarrow> string"
  upstream_NewFastUpstream :: "string \<Rightarrow> string \<Rightarrow> string \<Rightarrow> go_error + 'fu"
  domain_NewMixMatcher :: 'dm
  domain_LoadFromFile :: "'dm \<Rightarrow> string \<Rightarrow> go_error + 'dm"
  MixMatcher_Len :: "'dm \<Rightarrow> nat"
  netlist_NewList :: 'nl
  netlist_LoadFromFile :: "'nl \<Rightarrow> string \<Rightarrow> go_error + 'nl"
  List_Sort :: "'nl \<Rightarrow> 'nl"
  List_Len :: "'nl \<Rightarrow> nat"

text \<open>\<^verbatim>\<open>URL.Query\<close> parses \<^verbatim>\<open>RawQuery\<close> and drops the parser's error.\<close>

definition URL_Query :: "('fu, 'dm, 'nl) env \<Rightarrow> URL \<Rightarrow> Values" where
  "URL_Query E u = url_ParseQuery E (RawQuery u)"

subsection \<open>The handler\<close>

text \<open>
  Modelled from the spec: \<^verbatim>\<open>wrapFU\<close> is not in \<^verbatim>\<open>main.go\<close>. An Upstream Handle "wraps
  one configured resolver endpoint with a trust flag", so the handle that
  \<^verbatim>\<open>wrapFU(fu, trusted)\<close> returns holds its two arguments.
\<close>

record 'fu upstreamHandle =
  endpoint :: 'fu
  trusted :: bool

definition wrapFU :: "'fu \<Rightarrow> bool \<Rightarrow> 'fu upstreamHandle" where
  "wrapFU u t = \<lparr>endpoint = u, trusted = t\<rparr>"

text \<open>
  The objects the library constructors return hold the constructors' arguments:
  \<^verbatim>\<open>mem_cache.NewMemCache(shardNum, maxSizePerShard, cleanerInterval)\<close>,
  \<^verbatim>\<open>msg_matcher.NewQNameMatcher(m)\<close>, \<^verbatim>\<open>msg_matcher.NewAAAAAIPMatcher(l)\<close>.
\<close>

record MemCache =
  shardNum :: go_int
  maxSizePerShard :: go_int
  cleanerInterval :: duration

definition mem_cache_NewMemCache :: "go_int \<Rightarrow> go_int \<Rightarrow> duration \<Rightarrow> MemCache" where
  "mem_cache_NewMemCache n sz iv = \<lparr>shardNum = n, maxSizePerShard = sz, cleanerInterval = iv\<rparr>"

datatype 'dm QNameMatcher = NewQNameMatcher 'dm

datatype 'nl AAAAAIPMatcher = NewAAAAAIPMatcher 'nl

text \<open>
  Modelled from the spec: the declaration of \<^verbatim>\<open>cnHandler\<close> is not in \<^verbatim>\<open>main.go\<close>. Its
  fields are the ones \<^verbatim>\<open>run\<close> assigns; a field that holds a pointer or an interface
  is an option, \<open>None\<close> for nil. \<^verbatim>\<open>new(cnHandler)\<close> is the zero value.
\<close>

record ('fu, 'dm, 'nl) cnHandler =
  cache :: "MemCache option"
  localUpstream :: "'fu upstreamHandle list"
  remoteUpstream :: "'fu upstreamHandle list"
  localDomain :: "'dm QNameMatcher option"
  remoteDomain :: "'dm QNameMatcher option"
  localIP :: "'nl AAAAAIPMatcher option"
  localLatency :: duration

subsection \<open>splitArgs\<close>

text \<open>
  The result is the triple \<open>(addr, socks5, netAddr)\<close>, or the wrapped error. The query
  is read from the parsed URL before its \<^verbatim>\<open>RawQuery\<close> is cleared.
\<close>

definition splitArgs ::
  "('fu, 'dm, 'nl) env \<Rightarrow> string \<Rightarrow> go_error + string \<times> string \<times> string" where
  "splitArgs E s0 =
     (let s = (if \<not> strings_Contains s0 ''://'' then ''udp://'' @ s0 else s0) in
      case url_Parse E s of
        Inl err \<Rightarrow> Inl (InvalidUpstreamAddress err)
      | Inr u0 \<Rightarrow>
          (let v = URL_Query E u0;
               socks5 = Values_Get v ''socks5'';
               netAddr = Values_Get v ''netaddr'';
               u = u0\<lparr>RawQuery := ''''\<rparr>;
               addr = url_String E u
           in Inr (addr, socks5, netAddr)))"

subsection \<open>batchLoadDomainFile and batchLoadIPFile\<close>

fun batchLoadDomainFile ::
  "('fu, 'dm, 'nl) env \<Rightarrow> 'dm \<Rightarrow> string list \<Rightarrow> go_error + 'dm" where
  "batchLoadDomainFile E m [] = Inr m"
| "batchLoadDomainFile E m (f # files) =
     (case domain_LoadFromFile E m f of
        Inl err \<Rightarrow> Inl err
      | Inr m' \<Rightarrow> batchLoadDomainFile E m' files)"

fun batchLoadIPFile ::
  "('fu, 'dm, 'nl) env \<Rightarrow> 'nl \<Rightarrow> string list \<Rightarrow> go_error + 'nl" where
  "batchLoadIPFile E l [] = Inr l"
| "batchLoadIPFile E l (f # files) =
     (case netlist_LoadFromFile E l f of
        Inl err \<Rightarrow> Inl err
      | Inr l' \<Rightarrow> batchLoadIPFile E l' files)"

subsection \<open>The state of the starting process\<close>

datatype level = DebugLevel | InfoLevel

datatype group = Local | Remote

text \<open>The messages of \<^verbatim>\<open>Fatalf\<close> (each ends the process) and of \<^verbatim>\<open>Infof\<close>.\<close>

datatype fatal =
    FailedToParseUpstream group nat go_error
  | FailedToLoadUpstream group nat go_error
  | FailedToLoadLocalDomain go_error
  | FailedToLoadRemoteDomain go_error
  | FailedToLoadLocalIP go_error

datatype info =
    LocalDomainMatcherLoaded nat
  | RemoteDomainMatcherLoaded nat
  | LocalIPMatcherLoaded nat

text \<open>
  \<^verbatim>\<open>server.NewServer(network, addr, server.WithHandler(h))\<close>: the server holds the
  pointer \<open>h\<close>, an index into the heap of handler objects.
\<close>

record Server =
  network :: string
  address :: string
  handler :: nat

definition server_NewServer :: "string \<Rightarrow> string \<Rightarrow> nat \<Rightarrow> Server" where
  "server_NewServer net a h = \<lparr>network = net, address = a, handler = h\<rparr>"

text \<open>
  The state \<^verbatim>\<open>run\<close> works on: the log level, the lines logged at info level, the
  handler objects allocated so far (a pointer to a handler is its index) and the servers
  created so far.
\<close>

record ('fu, 'dm, 'nl) state =
  logLevel :: level
  infoLog :: "info list"
  heap :: "('fu, 'dm, 'nl) cnHandler list"
  servers :: "Server list"

text \<open>\<^verbatim>\<open>new(cnHandler)\<close>: a fresh zero-valued object and the pointer to it.\<close>

definition new_handler ::
  "('fu, 'dm, 'nl) state \<Rightarrow> nat \<times> ('fu, 'dm, 'nl) state" where
  "new_handler st =
     (length (heap st),
      st\<lparr>heap := heap st @
        [\<lparr>cache = None, localUpstream = [], remoteUpstream = [],
          localDomain = None, remoteDomain = None, localIP = None, localLatency = 0\<rparr>]\<rparr>)"

text \<open>Reading the object behind a pointer, and an assignment to its fields.\<close>

definition deref :: "('fu, 'dm, 'nl) state \<Rightarrow> nat \<Rightarrow> ('fu, 'dm, 'nl) cnHandler" where
  "deref st h = heap st ! h"

definition assign ::
  "nat \<Rightarrow> (('fu, 'dm, 'nl) cnHandler \<Rightarrow> ('fu, 'dm, 'nl) cnHandler) \<Rightarrow>
   ('fu, 'dm, 'nl) state \<Rightarrow> ('fu, 'dm, 'nl) state" where
  "assign h f st = st\<lparr>heap := (heap st)[h := f (heap st ! h)]\<rparr>"

definition Infof :: "info \<Rightarrow> ('fu, 'dm, 'nl) state \<Rightarrow> ('fu, 'dm, 'nl) state" where
  "Infof msg st = st\<lparr>infoLog := infoLog st @ [msg]\<rparr>"

text \<open>Sequencing of steps that may end the process.\<close>

definition andThen :: "'e + 'a \<Rightarrow> ('a \<Rightarrow> 'e + 'b) \<Rightarrow> 'e + 'b" where
  "andThen r f = (case r of Inl e \<Rightarrow> Inl e | Inr a \<Rightarrow> f a)"

subsection \<open>run\<close>

text \<open>Lines 78 to 80: the cache.\<close>

definition run_cache ::
  "Opts \<Rightarrow> nat \<Rightarrow> ('fu, 'dm, 'nl) state \<Rightarrow> ('fu, 'dm, 'nl) state" where
  "run_cache opts h st =
     (if 8 <s CacheSize opts
      then assign h (\<lambda>x. x\<lparr>cache :=
             Some (mem_cache_NewMemCache 8 (go_div (CacheSize opts) 8) time_Minute)\<rparr>) st
      else st)"

text \<open>
  Lines 82 to 98 and 100 to 116: the two loops over the upstream lists. They differ in
  the list they append to and in the message of the fatal error, which the group selects.
\<close>

fun appendUpstream ::
  "group \<Rightarrow> 'fu upstreamHandle \<Rightarrow> ('fu, 'dm, 'nl) cnHandler \<Rightarrow> ('fu, 'dm, 'nl) cnHandler" where
  "appendUpstream Local u x = x\<lparr>localUpstream := localUpstream x @ [u]\<rparr>"
| "appendUpstream Remote u x = x\<lparr>remoteUpstream := remoteUpstream x @ [u]\<rparr>"

fun run_upstream ::
  "('fu, 'dm, 'nl) env \<Rightarrow> group \<Rightarrow> nat \<Rightarrow> nat \<Rightarrow> string list \<Rightarrow>
   ('fu, 'dm, 'nl) state \<Rightarrow> fatal + ('fu, 'dm, 'nl) state" where
  "run_upstream E g h i [] st = Inr st"
| "run_upstream E g h i (s # ss) st =
     (case splitArgs E s of
        Inl err \<Rightarrow> Inl (FailedToParseUpstream g i err)
      | Inr (addr, socks5, netAddr) \<Rightarrow>
          (case upstream_NewFastUpstream E addr socks5 netAddr of
             Inl err \<Rightarrow> Inl (FailedToLoadUpstream g i err)
           | Inr fu \<Rightarrow>
               (let trusted = (if i = 0 then True else False)
                in run_upstream E g h (Suc i) ss
                     (assign h (appendUpstream g (wrapFU fu trusted)) st))))"

text \<open>Lines 118 to 125 and 127 to 134: the domain matchers.\<close>

definition run_localDomain ::
  "('fu, 'dm, 'nl) env \<Rightarrow> Opts \<Rightarrow> nat \<Rightarrow> ('fu, 'dm, 'nl) state \<Rightarrow>
   fatal + ('fu, 'dm, 'nl) state" where
  "run_localDomain E opts h st =
     (if length (LocalDomain opts) > 0 then
        (case batchLoadDomainFile E (domain_NewMixMatcher E) (LocalDomain opts) of
           Inl err \<Rightarrow> Inl (FailedToLoadLocalDomain err)
         | Inr mixMatcher \<Rightarrow>
             Inr (assign h (\<lambda>x. x\<lparr>localDomain := Some (NewQNameMatcher mixMatcher)\<rparr>)
                   (Infof (LocalDomainMatcherLoaded (MixMatcher_Len E mixMatcher)) st)))
      else Inr st)"

definition run_remoteDomain ::
  "('fu, 'dm, 'nl) env \<Rightarrow> Opts \<Rightarrow> nat \<Rightarrow> ('fu, 'dm, 'nl) state \<Rightarrow>
   fatal + ('fu, 'dm, 'nl) state" where
  "run_remoteDomain E opts h st =
     (if length (RemoteDomain opts) > 0 then
        (case batchLoadDomainFile E (domain_NewMixMatcher E) (RemoteDomain opts) of
           Inl err \<Rightarrow> Inl (FailedToLoadRemoteDomain err)
         | Inr mixMatcher \<Rightarrow>
             Inr (assign h (\<lambda>x. x\<lparr>remoteDomain := Some (NewQNameMatcher mixMatcher)\<rparr>)
                   (Infof (RemoteDomainMatcherLoaded (MixMatcher_Len E mixMatcher)) st)))
      else Inr st)"

text \<open>Lines 136 to 143: the netlist is loaded, sorted, measured and wrapped.\<close>

definition run_localIP ::
  "('fu, 'dm, 'nl) env \<Rightarrow> Opts \<Rightarrow> nat \<Rightarrow> ('fu, 'dm, 'nl) state \<Rightarrow>
   fatal + ('fu, 'dm, 'nl) state" where
  "run_localIP E opts h st =
     (case batchLoadIPFile E (netlist_NewList E) (LocalIP opts) of
        Inl err \<Rightarrow> Inl (FailedToLoadLocalIP err)
      | Inr nl0 \<Rightarrow>
          (let nl = List_Sort E nl0
           in Inr (assign h (\<lambda>x. x\<lparr>localIP := Some (NewAAAAAIPMatcher nl)\<rparr>)
                    (Infof (LocalIPMatcherLoaded (List_Len E nl)) st))))"

text \<open>Line 145.\<close>

definition run_localLatency ::
  "Opts \<Rightarrow> nat \<Rightarrow> ('fu, 'dm, 'nl) state \<Rightarrow> ('fu, 'dm, 'nl) state" where
  "run_localLatency opts h st =
     assign h (\<lambda>x. x\<lparr>localLatency :=
       time_Millisecond * time_Duration (LocalLatency opts)\<rparr>) st"

text \<open>Lines 147 and 148. The two goroutines that start the servers are not modelled.\<close>

definition run_servers ::
  "Opts \<Rightarrow> nat \<Rightarrow> ('fu, 'dm, 'nl) state \<Rightarrow> ('fu, 'dm, 'nl) state" where
  "run_servers opts h st =
     (let udpServer = server_NewServer ''udp'' (ServerAddr opts) h;
          tcpServer = server_NewServer ''tcp'' (ServerAddr opts) h
      in st\<lparr>servers := servers st @ [udpServer, tcpServer]\<rparr>)"

text \<open>
  \<^verbatim>\<open>run\<close>, from a process that has logged nothing, allocated no handler and created
  no server. The result is the fatal error that ended the process, or the pointer \<open>h\<close>
  with the state in which the servers are about to be started.
\<close>

definition run ::
  "('fu, 'dm, 'nl) env \<Rightarrow> Opts \<Rightarrow> fatal + nat \<times> ('fu, 'dm, 'nl) state" where
  "run E opts =
     (let st0 = \<lparr>logLevel = (if Debug opts then DebugLevel else InfoLevel),
                 infoLog = [], heap = [], servers = []\<rparr>;
          (h, st1) = new_handler st0;
          st2 = run_cache opts h st1
      in andThen (run_upstream E Local h 0 (LocalUpstream opts) st2) (\<lambda>st3.
         andThen (run_upstream E Remote h 0 (RemoteUpstream opts) st3) (\<lambda>st4.
         andThen (run_localDomain E opts h st4) (\<lambda>st5.
         andThen (run_remoteDomain E opts h st5) (\<lambda>st6.
         andThen (run_localIP E opts h st6) (\<lambda>st7.
         Inr (h, run_servers opts h (run_localLatency opts h st7))))))))"

subsection \<open>main and the command line\<close>

text \<open>
  What the command line gives for each flag of \<^verbatim>\<open>Opts\<close>: a scalar flag is given or
  not, a list flag collects its occurrences, the boolean flag is present or not.
  \<^verbatim>\<open>flags.Parse\<close> fills the structure by its tags: a flag tagged \<^verbatim>\<open>required:"true"\<close>
  that is not given is an error, a flag that is not given takes the value of its
  \<^verbatim>\<open>default\<close> tag, or the zero value when it has none.
\<close>

record Args =
  server_flag :: "string option"
  cache_flag :: "go_int option"
  local_upstream_flag :: "string list"
  local_ip_flag :: "string list"
  local_domain_flag :: "string list"
  local_latency_flag :: "go_int option"
  remote_upstream_flag :: "string list"
  remote_domain_flag :: "string list"
  debug_flag :: bool

definition flags_Parse :: "Args \<Rightarrow> go_error + Opts" where
  "flags_Parse a =
     (case server_flag a of
        None \<Rightarrow> Inl (LibError ''the required flag server was not specified'')
      | Some addr \<Rightarrow>
          if local_upstream_flag a = [] \<or> local_ip_flag a = [] \<or> remote_upstream_flag a = []
          then Inl (LibError ''a required flag was not specified'')
          else Inr \<lparr>ServerAddr = addr,
                    CacheSize = (case cache_flag a of None \<Rightarrow> 0 | Some c \<Rightarrow> c),
                    LocalUpstream = local_upstream_flag a,
                    LocalIP = local_ip_flag a,
                    LocalDomain = local_domain_flag a,
                    LocalLatency = (case local_latency_flag a of None \<Rightarrow> 50 | Some v \<Rightarrow> v),
                    RemoteUpstream = remote_upstream_flag a,
                    RemoteDomain = remote_domain_flag a,
                    Debug = debug_flag a\<rparr>)"

text \<open>
  \<^verbatim>\<open>main\<close> up to the point where the servers are about to be started: the process has
  exited with status 1 after a flags error, has been ended by \<^verbatim>\<open>Fatalf\<close>, or serves.
  The wait for a signal is not modelled.
\<close>

datatype 'st outcome = Exit nat | Fatal fatal | Serving 'st

definition main ::
  "('fu, 'dm, 'nl) env \<Rightarrow> Args \<Rightarrow> (nat \<times> ('fu, 'dm, 'nl) state) outcome" where
  "main E a =
     (case flags_Parse a of
        Inl err \<Rightarrow> Exit 1
      | Inr opts \<Rightarrow> (case run E opts of Inl f \<Rightarrow> Fatal f | Inr r \<Rightarrow> Serving r))"

subsection \<open>An example configuration\<close>

text \<open>
  A small world to run the startup in: two addresses parse, a fast upstream is the
  triple of its arguments, a matcher is the list of the files loaded into it, a netlist
  is a list of numbers, and the file \<^verbatim>\<open>missing.txt\<close> cannot be read.
\<close>

definition example_URL :: "string \<Rightarrow> string \<Rightarrow> string \<Rightarrow> URL" where
  "example_URL sch hst q =
     \<lparr>Scheme = sch, Opaque = '''', User = None, Host = hst, Path = '''', RawPath = '''',
      ForceQuery = False, RawQuery = q, Fragment = '''', RawFragment = ''''\<rparr>"

definition example_Parse :: "string \<Rightarrow> go_error + URL" where
  "example_Parse s =
     (if s = ''udp://223.5.5.5'' then Inr (example_URL ''udp'' ''223.5.5.5'' '''')
      else if s = ''tcp://8.8.8.8?socks5=127.0.0.1:1080''
      then Inr (example_URL ''tcp'' ''8.8.8.8'' ''socks5=127.0.0.1:1080'')
      else Inl (LibError ''parse error''))"

definition example_ParseQuery :: "string \<Rightarrow> Values" where
  "example_ParseQuery q =
     (if q = ''socks5=127.0.0.1:1080'' then [''socks5'' \<mapsto> [''127.0.0.1:1080'']]
      else Map.empty)"

definition example_String :: "URL \<Rightarrow> string" where
  "example_String u =
     Scheme u @ ''://'' @ Host u @ (if RawQuery u = '''' then '''' else ''?'' @ RawQuery u)"

definition example_LoadFromFile :: "string list \<Rightarrow> string \<Rightarrow> go_error + string list" where
  "example_LoadFromFile m f =
     (if f = ''missing.txt'' then Inl (LibError ''no such file'') else Inr (m @ [f]))"

definition example_LoadIP :: "nat list \<Rightarrow> string \<Rightarrow> go_error + nat list" where
  "example_LoadIP l f =
     (if f = ''missing.txt'' then Inl (LibError ''no such file'') else Inr (l @ [3, 1, 2]))"

definition example_env :: "(string \<times> string \<times> string, string list, nat list) env" where
  "example_env =
     \<lparr>url_Parse = example_Parse,
      url_ParseQuery = example_ParseQuery,
      url_String = example_String,
      upstream_NewFastUpstream = (\<lambda>addr socks5 netAddr. Inr (addr, socks5, netAddr)),
      domain_NewMixMatcher = [],
      domain_LoadFromFile = example_LoadFromFile,
      MixMatcher_Len = length,
      netlist_NewList = [],
      netlist_LoadFromFile = example_LoadIP,
      List_Sort = sort,
      List_Len = length\<rparr>"

definition example_opts :: Opts where
  "example_opts =
     \<lparr>ServerAddr = '':53'', CacheSize = 1027,
      LocalUpstream = [''223.5.5.5'', ''tcp://8.8.8.8?socks5=127.0.0.1:1080''],
      LocalIP = [''cn.txt''], LocalDomain = [], LocalLatency = 50,
      RemoteUpstream = [''tcp://8.8.8.8?socks5=127.0.0.1:1080'', ''223.5.5.5''],
      RemoteDomain = [''gfw.txt''], Debug = False\<rparr>"

text \<open>The state in which the example configuration starts its servers.\<close>

definition example_state :: "(string \<times> string \<times> string, string list, nat list) state" where
  "example_state =
     \<lparr>logLevel = InfoLevel,
      infoLog = [RemoteDomainMatcherLoaded 1, LocalIPMatcherLoaded 3],
      heap =
        [\<lparr>cache = Some \<lparr>shardNum = 8, maxSizePerShard = 128, cleanerInterval = 60000000000\<rparr>,
          localUpstream =
            [\<lparr>endpoint = (''udp://223.5.5.5'', '''', ''''), trusted = True\<rparr>,
             \<lparr>endpoint = (''tcp://8.8.8.8'', ''127.0.0.1:1080'', ''''), trusted = False\<rparr>],
          remoteUpstream =
            [\<lparr>endpoint = (''tcp://8.8.8.8'', ''127.0.0.1:1080'', ''''), trusted = True\<rparr>,
             \<lparr>endpoint = (''udp://223.5.5.5'', '''', ''''), trusted = False\<rparr>],
          localDomain = None,
          remoteDomain = Some (NewQNameMatcher [''gfw.txt'']),
          localIP = Some (NewAAAAAIPMatcher [1, 2, 3]),
          localLatency = 50000000\<rparr>],
      servers =
        [\<lparr>network = ''udp'', address = '':53'', handler = 0\<rparr>,
         \<lparr>network = ''tcp'', address = '':53'', handler = 0\<rparr>]\<rparr>"

text \<open>A command line that gives the example configuration and omits the latency flag.\<close>

definition example_args :: Args where
  "example_args =
     \<lparr>server_flag = Some '':53'', cache_flag = Some 1027,
      local_upstream_flag = [''223.5.5.5'', ''tcp://8.8.8.8?socks5=127.0.0.1:1080''],
      local_ip_flag = [''cn.txt''], local_domain_flag = [],
      local_latency_flag = None,
      remote_upstream_flag = [''tcp://8.8.8.8?socks5=127.0.0.1:1080'', ''223.5.5.5''],
      remote_domain_flag = [''gfw.txt''], debug_flag = False\<rparr>"

text \<open>The example world with a constructor that refuses every udp address.\<close>

definition example_env_no_udp :: "(string \<times> string \<times> string, string list, nat list) env" where
  "example_env_no_udp =
     example_env\<lparr>upstream_NewFastUpstream :=
       (\<lambda>addr socks5 netAddr.
          if prefix ''udp://'' addr then Inl (LibError ''unsupported protocol'')
          else Inr (addr, socks5, netAddr))\<rparr>"

section \<open>Properties of the steps\<close>

lemma if_to_bool: "(if c then True else False) = c"
  by simp

lemma heap_assign: "length (heap (assign h f st)) = length (heap st)"
  by (simp add: assign_def)

lemma servers_assign: "servers (assign h f st) = servers st"
  by (simp add: assign_def)

lemma deref_assign: "h < length (heap st) \<Longrightarrow> deref (assign h f st) h = f (deref st h)"
  by (simp add: assign_def deref_def)

lemma heap_Infof: "heap (Infof m st) = heap st"
  by (simp add: Infof_def)

lemma servers_Infof: "servers (Infof m st) = servers st"
  by (simp add: Infof_def)

lemma deref_Infof: "deref (Infof m st) h = deref st h"
  by (simp add: Infof_def deref_def)

lemma andThen_Inr: "andThen r f = Inr y \<longleftrightarrow> (\<exists>x. r = Inr x \<and> f x = Inr y)"
  by (cases r) (simp_all add: andThen_def)

lemma andThen_isl: "isl (andThen r f) \<longleftrightarrow> isl r \<or> isl (f (projr r))"
  by (cases r) (simp_all add: andThen_def)

lemma run_cache_frame:
  "length (heap (run_cache opts h st)) = length (heap st)"
  "servers (run_cache opts h st) = servers st"
  by (simp_all add: run_cache_def heap_assign servers_assign)

lemma run_cache_deref:
  "h < length (heap st) \<Longrightarrow>
   deref (run_cache opts h st) h =
     (if 8 <s CacheSize opts
      then (deref st h)\<lparr>cache := Some (mem_cache_NewMemCache 8 (go_div (CacheSize opts) 8) time_Minute)\<rparr>
      else deref st h)"
  by (simp add: run_cache_def deref_assign)

lemma run_upstream_frame:
  "run_upstream E g h i ss st = Inr st' \<Longrightarrow>
   length (heap st') = length (heap st) \<and> servers st' = servers st"
proof (induction ss arbitrary: i st)
  case Nil
  then show ?case by simp
next
  case (Cons s ss)
  then show ?case
    by (auto split: sum.splits prod.splits simp: heap_assign servers_assign)
qed

lemma run_upstream_deref:
  "run_upstream E g h i ss st = Inr st' \<Longrightarrow> h < length (heap st) \<Longrightarrow>
   \<exists>new. deref st' h =
           (case g of Local \<Rightarrow> (deref st h)\<lparr>localUpstream := localUpstream (deref st h) @ new\<rparr>
                    | Remote \<Rightarrow> (deref st h)\<lparr>remoteUpstream := remoteUpstream (deref st h) @ new\<rparr>)
         \<and> length new = length ss
         \<and> (\<forall>k<length ss. trusted (new ! k) = (i + k = 0)
              \<and> (\<exists>addr socks5 netAddr.
                    splitArgs E (ss ! k) = Inr (addr, socks5, netAddr)
                  \<and> upstream_NewFastUpstream E addr socks5 netAddr = Inr (endpoint (new ! k))))"
proof (induction ss arbitrary: i st)
  case Nil
  then show ?case by (cases g) simp_all
next
  case (Cons s ss)
  from Cons.prems(1) obtain addr socks5 netAddr fu where
    sa: "splitArgs E s = Inr (addr, socks5, netAddr)" and
    nf: "upstream_NewFastUpstream E addr socks5 netAddr = Inr fu" and
    rec: "run_upstream E g h (Suc i) ss (assign h (appendUpstream g (wrapFU fu (i = 0))) st) = Inr st'"
    by (auto split: sum.splits prod.splits simp: if_to_bool)
  let ?st1 = "assign h (appendUpstream g (wrapFU fu (i = 0))) st"
  have len: "h < length (heap ?st1)" using Cons.prems(2) by (simp add: heap_assign)
  from Cons.IH[OF rec len] obtain new where
    d: "deref st' h =
           (case g of Local \<Rightarrow> (deref ?st1 h)\<lparr>localUpstream := localUpstream (deref ?st1 h) @ new\<rparr>
                    | Remote \<Rightarrow> (deref ?st1 h)\<lparr>remoteUpstream := remoteUpstream (deref ?st1 h) @ new\<rparr>)" and
    l: "length new = length ss" and
    p: "\<forall>k<length ss. trusted (new ! k) = (Suc i + k = 0)
              \<and> (\<exists>addr socks5 netAddr.
                    splitArgs E (ss ! k) = Inr (addr, socks5, netAddr)
                  \<and> upstream_NewFastUpstream E addr socks5 netAddr = Inr (endpoint (new ! k)))"
    by blast
  let ?new = "wrapFU fu (i = 0) # new"
  have d1: "deref ?st1 h = appendUpstream g (wrapFU fu (i = 0)) (deref st h)"
    using Cons.prems(2) by (rule deref_assign)
  have A: "deref st' h =
           (case g of Local \<Rightarrow> (deref st h)\<lparr>localUpstream := localUpstream (deref st h) @ ?new\<rparr>
                    | Remote \<Rightarrow> (deref st h)\<lparr>remoteUpstream := remoteUpstream (deref st h) @ ?new\<rparr>)"
    unfolding d d1 by (cases g) simp_all
  have B: "length ?new = length (s # ss)" using l by simp
  have C: "trusted (?new ! k) = (i + k = 0)
              \<and> (\<exists>addr socks5 netAddr.
                    splitArgs E ((s # ss) ! k) = Inr (addr, socks5, netAddr)
                  \<and> upstream_NewFastUpstream E addr socks5 netAddr = Inr (endpoint (?new ! k)))"
    if "k < length (s # ss)" for k
  proof (cases k)
    case 0
    then show ?thesis using sa nf by (simp add: wrapFU_def)
  next
    case (Suc j)
    then have "j < length ss" using that by simp
    with p Suc show ?thesis by simp
  qed
  from A B C show ?case by blast
qed


lemma run_localDomain_frame:
  "run_localDomain E opts h st = Inr st' \<Longrightarrow>
   length (heap st') = length (heap st) \<and> servers st' = servers st"
  by (auto simp: run_localDomain_def heap_assign servers_assign heap_Infof servers_Infof
           split: if_splits sum.splits)

lemma run_localDomain_deref:
  "run_localDomain E opts h st = Inr st' \<Longrightarrow> h < length (heap st) \<Longrightarrow>
   deref st' h =
     (if LocalDomain opts = [] then deref st h
      else (deref st h)\<lparr>localDomain := Some (NewQNameMatcher
             (projr (batchLoadDomainFile E (domain_NewMixMatcher E) (LocalDomain opts))))\<rparr>)"
  by (auto simp: run_localDomain_def deref_assign heap_Infof deref_Infof
           split: if_splits sum.splits)

lemma run_remoteDomain_frame:
  "run_remoteDomain E opts h st = Inr st' \<Longrightarrow>
   length (heap st') = length (heap st) \<and> servers st' = servers st"
  by (auto simp: run_remoteDomain_def heap_assign servers_assign heap_Infof servers_Infof
           split: if_splits sum.splits)

lemma run_remoteDomain_deref:
  "run_remoteDomain E opts h st = Inr st' \<Longrightarrow> h < length (heap st) \<Longrightarrow>
   deref st' h =
     (if RemoteDomain opts = [] then deref st h
      else (deref st h)\<lparr>remoteDomain := Some (NewQNameMatcher
             (projr (batchLoadDomainFile E (domain_NewMixMatcher E) (RemoteDomain opts))))\<rparr>)"
  by (auto simp: run_remoteDomain_def deref_assign heap_Infof deref_Infof
           split: if_splits sum.splits)

lemma run_localIP_frame:
  "run_localIP E opts h st = Inr st' \<Longrightarrow>
   length (heap st') = length (heap st) \<and> servers st' = servers st"
  by (auto simp: run_localIP_def Let_def heap_assign servers_assign heap_Infof servers_Infof
           split: sum.splits)

lemma run_localIP_deref:
  "run_localIP E opts h st = Inr st' \<Longrightarrow> h < length (heap st) \<Longrightarrow>
   deref st' h =
     (deref st h)\<lparr>localIP := Some (NewAAAAAIPMatcher
        (List_Sort E (projr (batchLoadIPFile E (netlist_NewList E) (LocalIP opts)))))\<rparr>"
  by (auto simp: run_localIP_def Let_def deref_assign heap_Infof deref_Infof split: sum.splits)

lemma run_localLatency_frame:
  "length (heap (run_localLatency opts h st)) = length (heap st)"
  "servers (run_localLatency opts h st) = servers st"
  by (simp_all add: run_localLatency_def heap_assign servers_assign)

lemma run_localLatency_deref:
  "h < length (heap st) \<Longrightarrow>
   deref (run_localLatency opts h st) h =
     (deref st h)\<lparr>localLatency := time_Millisecond * time_Duration (LocalLatency opts)\<rparr>"
  by (simp add: run_localLatency_def deref_assign)

lemma run_servers_heap: "heap (run_servers opts h st) = heap st"
  by (simp add: run_servers_def)

lemma run_servers_deref: "deref (run_servers opts h st) p = deref st p"
  by (simp add: run_servers_def deref_def)

lemma run_servers_servers:
  "servers (run_servers opts h st) =
     servers st @ [server_NewServer ''udp'' (ServerAddr opts) h,
                   server_NewServer ''tcp'' (ServerAddr opts) h]"
  by (simp add: run_servers_def)

text \<open>The steps of a run that reaches the servers.\<close>

lemma run_Inr_steps:
  assumes "run E opts = Inr (h, st)"
  shows "\<exists>st1 st3 st4 st5 st6 st7.
    h = 0 \<and> length (heap st1) = 1 \<and> servers st1 = [] \<and>
    deref st1 0 = \<lparr>cache = None, localUpstream = [], remoteUpstream = [],
          localDomain = None, remoteDomain = None, localIP = None, localLatency = 0\<rparr> \<and>
    run_upstream E Local 0 0 (LocalUpstream opts) (run_cache opts 0 st1) = Inr st3 \<and>
    run_upstream E Remote 0 0 (RemoteUpstream opts) st3 = Inr st4 \<and>
    run_localDomain E opts 0 st4 = Inr st5 \<and>
    run_remoteDomain E opts 0 st5 = Inr st6 \<and>
    run_localIP E opts 0 st6 = Inr st7 \<and>
    st = run_servers opts 0 (run_localLatency opts 0 st7)"
proof -
  let ?st1 = "\<lparr>logLevel = (if Debug opts then DebugLevel else InfoLevel), infoLog = [],
      heap = [\<lparr>cache = None, localUpstream = [], remoteUpstream = [],
          localDomain = None, remoteDomain = None, localIP = None, localLatency = 0\<rparr>],
      servers = []\<rparr> :: ('a, 'b, 'c) state"
  from assms obtain st3 st4 st5 st6 st7 where
    "h = 0"
    "run_upstream E Local 0 0 (LocalUpstream opts) (run_cache opts 0 ?st1) = Inr st3"
    "run_upstream E Remote 0 0 (RemoteUpstream opts) st3 = Inr st4"
    "run_localDomain E opts 0 st4 = Inr st5"
    "run_remoteDomain E opts 0 st5 = Inr st6"
    "run_localIP E opts 0 st6 = Inr st7"
    "st = run_servers opts 0 (run_localLatency opts 0 st7)"
    by (auto simp: run_def new_handler_def andThen_Inr)
  moreover have "length (heap ?st1) = 1" "servers ?st1 = []"
    "deref ?st1 0 = \<lparr>cache = None, localUpstream = [], remoteUpstream = [],
          localDomain = None, remoteDomain = None, localIP = None, localLatency = 0\<rparr>"
    by (simp_all add: deref_def)
  ultimately show ?thesis by blast
qed


text \<open>The handler and the servers of a run that reaches the servers.\<close>

lemma run_Inr_result:
  assumes "run E opts = Inr (h, st)"
  shows "\<exists>lu ru.
    h = 0 \<and> length (heap st) = 1 \<and>
    servers st = [server_NewServer ''udp'' (ServerAddr opts) h,
                  server_NewServer ''tcp'' (ServerAddr opts) h] \<and>
    deref st h =
      \<lparr>cache = (if 8 <s CacheSize opts
                then Some (mem_cache_NewMemCache 8 (go_div (CacheSize opts) 8) time_Minute)
                else None),
       localUpstream = lu, remoteUpstream = ru,
       localDomain = (if LocalDomain opts = [] then None
                      else Some (NewQNameMatcher (projr
                        (batchLoadDomainFile E (domain_NewMixMatcher E) (LocalDomain opts))))),
       remoteDomain = (if RemoteDomain opts = [] then None
                       else Some (NewQNameMatcher (projr
                         (batchLoadDomainFile E (domain_NewMixMatcher E) (RemoteDomain opts))))),
       localIP = Some (NewAAAAAIPMatcher (List_Sort E (projr
                   (batchLoadIPFile E (netlist_NewList E) (LocalIP opts))))),
       localLatency = time_Millisecond * time_Duration (LocalLatency opts)\<rparr> \<and>
    length lu = length (LocalUpstream opts) \<and>
    (\<forall>k<length (LocalUpstream opts). trusted (lu ! k) = (k = 0) \<and>
       (\<exists>addr socks5 netAddr.
           splitArgs E (LocalUpstream opts ! k) = Inr (addr, socks5, netAddr) \<and>
           upstream_NewFastUpstream E addr socks5 netAddr = Inr (endpoint (lu ! k)))) \<and>
    length ru = length (RemoteUpstream opts) \<and>
    (\<forall>k<length (RemoteUpstream opts). trusted (ru ! k) = (k = 0) \<and>
       (\<exists>addr socks5 netAddr.
           splitArgs E (RemoteUpstream opts ! k) = Inr (addr, socks5, netAddr) \<and>
           upstream_NewFastUpstream E addr socks5 netAddr = Inr (endpoint (ru ! k))))"
proof -
  from run_Inr_steps[OF assms] obtain st1 st3 st4 st5 st6 st7 where
    h: "h = 0" and l1: "length (heap st1) = 1" and s1: "servers st1 = []" and
    d1: "deref st1 0 = \<lparr>cache = None, localUpstream = [], remoteUpstream = [],
          localDomain = None, remoteDomain = None, localIP = None, localLatency = 0\<rparr>" and
    r3: "run_upstream E Local 0 0 (LocalUpstream opts) (run_cache opts 0 st1) = Inr st3" and
    r4: "run_upstream E Remote 0 0 (RemoteUpstream opts) st3 = Inr st4" and
    r5: "run_localDomain E opts 0 st4 = Inr st5" and
    r6: "run_remoteDomain E opts 0 st5 = Inr st6" and
    r7: "run_localIP E opts 0 st6 = Inr st7" and
    st: "st = run_servers opts 0 (run_localLatency opts 0 st7)"
    by blast
  let ?st2 = "run_cache opts 0 st1"
  have l2: "length (heap ?st2) = 1" and s2: "servers ?st2 = []"
    using l1 s1 by (simp_all add: run_cache_frame)
  have l3: "length (heap st3) = 1" and s3: "servers st3 = []"
    using run_upstream_frame[OF r3] l2 s2 by simp_all
  have l4: "length (heap st4) = 1" and s4: "servers st4 = []"
    using run_upstream_frame[OF r4] l3 s3 by simp_all
  have l5: "length (heap st5) = 1" and s5: "servers st5 = []"
    using run_localDomain_frame[OF r5] l4 s4 by simp_all
  have l6: "length (heap st6) = 1" and s6: "servers st6 = []"
    using run_remoteDomain_frame[OF r6] l5 s5 by simp_all
  have l7: "length (heap st7) = 1" and s7: "servers st7 = []"
    using run_localIP_frame[OF r7] l6 s6 by simp_all
  have d2: "deref ?st2 0 =
      (if 8 <s CacheSize opts
       then (deref st1 0)\<lparr>cache := Some (mem_cache_NewMemCache 8 (go_div (CacheSize opts) 8) time_Minute)\<rparr>
       else deref st1 0)"
    using l1 by (simp add: run_cache_deref)
  from run_upstream_deref[OF r3] l2 obtain lu where
    d3: "deref st3 0 = (deref ?st2 0)\<lparr>localUpstream := localUpstream (deref ?st2 0) @ lu\<rparr>" and
    lu: "length lu = length (LocalUpstream opts)"
      "\<forall>k<length (LocalUpstream opts). trusted (lu ! k) = (0 + k = 0) \<and>
       (\<exists>addr socks5 netAddr.
           splitArgs E (LocalUpstream opts ! k) = Inr (addr, socks5, netAddr) \<and>
           upstream_NewFastUpstream E addr socks5 netAddr = Inr (endpoint (lu ! k)))"
    by auto
  from run_upstream_deref[OF r4] l3 obtain ru where
    d4: "deref st4 0 = (deref st3 0)\<lparr>remoteUpstream := remoteUpstream (deref st3 0) @ ru\<rparr>" and
    ru: "length ru = length (RemoteUpstream opts)"
      "\<forall>k<length (RemoteUpstream opts). trusted (ru ! k) = (0 + k = 0) \<and>
       (\<exists>addr socks5 netAddr.
           splitArgs E (RemoteUpstream opts ! k) = Inr (addr, socks5, netAddr) \<and>
           upstream_NewFastUpstream E addr socks5 netAddr = Inr (endpoint (ru ! k)))"
    by auto
  have d5: "deref st5 0 =
     (if LocalDomain opts = [] then deref st4 0
      else (deref st4 0)\<lparr>localDomain := Some (NewQNameMatcher
             (projr (batchLoadDomainFile E (domain_NewMixMatcher E) (LocalDomain opts))))\<rparr>)"
    using run_localDomain_deref[OF r5] l4 by simp
  have d6: "deref st6 0 =
     (if RemoteDomain opts = [] then deref st5 0
      else (deref st5 0)\<lparr>remoteDomain := Some (NewQNameMatcher
             (projr (batchLoadDomainFile E (domain_NewMixMatcher E) (RemoteDomain opts))))\<rparr>)"
    using run_remoteDomain_deref[OF r6] l5 by simp
  have d7: "deref st7 0 =
     (deref st6 0)\<lparr>localIP := Some (NewAAAAAIPMatcher
        (List_Sort E (projr (batchLoadIPFile E (netlist_NewList E) (LocalIP opts)))))\<rparr>"
    using run_localIP_deref[OF r7] l6 by simp
  have d8: "deref st 0 =
     (deref st7 0)\<lparr>localLatency := time_Millisecond * time_Duration (LocalLatency opts)\<rparr>"
    using l7 by (simp add: st run_servers_deref run_localLatency_deref)
  have len: "length (heap st) = 1"
    using l7 by (simp add: st run_servers_heap run_localLatency_frame)
  have srv: "servers st = [server_NewServer ''udp'' (ServerAddr opts) h,
                  server_NewServer ''tcp'' (ServerAddr opts) h]"
    using s7 by (simp add: st h run_servers_servers run_localLatency_frame)
  have rec: "deref st h =
      \<lparr>cache = (if 8 <s CacheSize opts
                then Some (mem_cache_NewMemCache 8 (go_div (CacheSize opts) 8) time_Minute)
                else None),
       localUpstream = lu, remoteUpstream = ru,
       localDomain = (if LocalDomain opts = [] then None
                      else Some (NewQNameMatcher (projr
                        (batchLoadDomainFile E (domain_NewMixMatcher E) (LocalDomain opts))))),
       remoteDomain = (if RemoteDomain opts = [] then None
                       else Some (NewQNameMatcher (projr
                         (batchLoadDomainFile E (domain_NewMixMatcher E) (RemoteDomain opts))))),
       localIP = Some (NewAAAAAIPMatcher (List_Sort E (projr
                   (batchLoadIPFile E (netlist_NewList E) (LocalIP opts))))),
       localLatency = time_Millisecond * time_Duration (LocalLatency opts)\<rparr>"
    unfolding h d8 d7 d6 d5 d4 d3 d2 d1 by simp
  from h len srv rec lu ru show ?thesis by simp
qed

lemma sint_go_div_8:
  assumes "8 < sint (c :: go_int)"
  shows "sint (go_div c 8) = sint c div 8"
proof -
  have r: "sint c < 2 ^ 63" using sint_lt[of c] by simp
  have "sint c sdiv 8 = sint c div 8"
    using assms by (simp add: signed_divide_int_def sgn_if)
  moreover have "- (2 ^ 63) \<le> sint c div 8" "sint c div 8 < 2 ^ 63"
    using assms r by simp_all
  ultimately show ?thesis
    by (simp add: go_div_def sint_sbintrunc' signed_take_bit_int_eq_self)
qed

lemma run_Inr_cache:
  assumes "run E opts = Inr (h, st)"
  shows "cache (deref st h) =
     (if 8 < sint (CacheSize opts)
      then Some (mem_cache_NewMemCache 8 (go_div (CacheSize opts) 8) time_Minute)
      else None)"
  using run_Inr_result[OF assms] by (elim exE conjE) (simp add: word_sless_alt)

lemma run_Inr_upstreams:
  assumes "run E opts = Inr (h, st)"
  shows "length (localUpstream (deref st h)) = length (LocalUpstream opts)"
    and "length (remoteUpstream (deref st h)) = length (RemoteUpstream opts)"
    and "\<forall>k<length (LocalUpstream opts).
           trusted (localUpstream (deref st h) ! k) = (k = 0) \<and>
           (\<exists>addr socks5 netAddr.
              splitArgs E (LocalUpstream opts ! k) = Inr (addr, socks5, netAddr) \<and>
              upstream_NewFastUpstream E addr socks5 netAddr =
                Inr (endpoint (localUpstream (deref st h) ! k)))"
    and "\<forall>k<length (RemoteUpstream opts).
           trusted (remoteUpstream (deref st h) ! k) = (k = 0) \<and>
           (\<exists>addr socks5 netAddr.
              splitArgs E (RemoteUpstream opts ! k) = Inr (addr, socks5, netAddr) \<and>
              upstream_NewFastUpstream E addr socks5 netAddr =
                Inr (endpoint (remoteUpstream (deref st h) ! k)))"
  using run_Inr_result[OF assms] by (elim exE conjE, simp)+

lemma run_Inr_domains:
  assumes "run E opts = Inr (h, st)"
  shows "localDomain (deref st h) =
           (if LocalDomain opts = [] then None
            else Some (NewQNameMatcher (projr
              (batchLoadDomainFile E (domain_NewMixMatcher E) (LocalDomain opts)))))"
    and "remoteDomain (deref st h) =
           (if RemoteDomain opts = [] then None
            else Some (NewQNameMatcher (projr
              (batchLoadDomainFile E (domain_NewMixMatcher E) (RemoteDomain opts)))))"
  using run_Inr_result[OF assms] by (elim exE conjE, simp)+

lemma run_Inr_localIP:
  assumes "run E opts = Inr (h, st)"
  shows "localIP (deref st h) =
           Some (NewAAAAAIPMatcher (List_Sort E (projr
             (batchLoadIPFile E (netlist_NewList E) (LocalIP opts)))))"
  using run_Inr_result[OF assms] by (elim exE conjE) simp

lemma run_Inr_localLatency:
  assumes "run E opts = Inr (h, st)"
  shows "localLatency (deref st h) = time_Millisecond * time_Duration (LocalLatency opts)"
  using run_Inr_result[OF assms] by (elim exE conjE) simp

lemma run_Inr_servers:
  assumes "run E opts = Inr (h, st)"
  shows "servers st = [server_NewServer ''udp'' (ServerAddr opts) h,
                       server_NewServer ''tcp'' (ServerAddr opts) h]"
    and "h = 0" and "length (heap st) = 1"
  using run_Inr_result[OF assms] by (elim exE conjE, simp)+

lemma range_ms:
  "(- 9223372036854775808 \<le> 1000000 * x \<and> 1000000 * x < 9223372036854775808) \<longleftrightarrow>
   (- 9223372036854 \<le> x \<and> x \<le> 9223372036854)" for x :: int
  by linarith

lemma sint_Millisecond_times:
  "sint (time_Millisecond * time_Duration v) = 1000000 * sint v \<longleftrightarrow>
     - 9223372036854 \<le> sint v \<and> sint v \<le> 9223372036854"
proof -
  have m: "time_Millisecond * time_Duration v = 1000000 * v"
    by (simp add: time_Millisecond_def time_Microsecond_def time_Nanosecond_def
          time_Duration_def)
  have w: "(1000000 * v :: 64 word) = word_of_int (1000000 * sint v)"
    by simp
  have s: "sint (1000000 * v :: 64 word) = signed_take_bit 63 (1000000 * sint v)"
    by (subst w, subst sint_sbintrunc') simp
  have "signed_take_bit 63 (1000000 * sint v) = 1000000 * sint v \<longleftrightarrow>
          - (2 ^ 63) \<le> 1000000 * sint v \<and> 1000000 * sint v < 2 ^ 63"
    by (rule signed_take_bit_int_eq_self_iff)
  also have "\<dots> \<longleftrightarrow>
     - 9223372036854775808 \<le> 1000000 * sint v \<and> 1000000 * sint v < 9223372036854775808"
    by simp
  also have "\<dots> \<longleftrightarrow> - 9223372036854 \<le> sint v \<and> sint v \<le> 9223372036854"
    by (rule range_ms)
  finally show ?thesis unfolding m s .
qed

lemma run_localIP_loaded:
  "run_localIP E opts h st = Inr st' \<Longrightarrow>
   \<not> isl (batchLoadIPFile E (netlist_NewList E) (LocalIP opts))"
  by (auto simp: run_localIP_def split: sum.splits)

lemma run_Inr_loaded:
  assumes "run E opts = Inr (h, st)"
  shows "\<not> isl (batchLoadIPFile E (netlist_NewList E) (LocalIP opts))"
  using run_Inr_steps[OF assms] run_localIP_loaded by blast

lemma main_Serving:
  "main E a = Serving r \<longleftrightarrow> (\<exists>opts. flags_Parse a = Inr opts \<and> run E opts = Inr r)"
  by (auto simp: main_def split: sum.splits)

lemma flags_Parse_default:
  "flags_Parse a = Inr opts \<Longrightarrow> local_latency_flag a = None \<Longrightarrow> LocalLatency opts = 50"
  by (auto simp: flags_Parse_def split: option.splits if_splits)

lemma strings_Contains_sublist: "strings_Contains s substr \<longleftrightarrow> sublist substr s"
  by (induction s) (auto simp: sublist_Cons_right)

lemma splitArgs_Inl:
  "isl (splitArgs E s) \<longleftrightarrow>
     isl (url_Parse E (if strings_Contains s ''://'' then s else ''udp://'' @ s))"
  by (auto simp: splitArgs_def Let_def split: sum.splits)

lemma run_upstream_isl:
  "s \<in> set ss \<Longrightarrow> isl (splitArgs E s) \<Longrightarrow> isl (run_upstream E g h i ss st)"
proof (induction ss arbitrary: i st)
  case Nil
  then show ?case by simp
next
  case (Cons x xs)
  show ?case
  proof (cases "isl (splitArgs E x)")
    case True
    then show ?thesis by (auto split: sum.splits)
  next
    case False
    with Cons.prems have "s \<in> set xs" by auto
    from Cons.IH[OF this Cons.prems(2)] show ?thesis
      by (auto split: sum.splits prod.splits)
  qed
qed

lemma batchLoadDomainFile_isl:
  "f \<in> set files \<Longrightarrow> \<forall>m. isl (domain_LoadFromFile E m f) \<Longrightarrow>
   isl (batchLoadDomainFile E m0 files)"
proof (induction files arbitrary: m0)
  case Nil
  then show ?case by simp
next
  case (Cons x xs)
  show ?case
  proof (cases "domain_LoadFromFile E m0 x")
    case (Inl e)
    then show ?thesis by simp
  next
    case (Inr m1)
    have "f \<noteq> x"
    proof
      assume "f = x"
      with Cons.prems(2) have "isl (domain_LoadFromFile E m0 x)" by blast
      with Inr show False by simp
    qed
    with Cons.prems(1) have "f \<in> set xs" by simp
    from Cons.IH[OF this Cons.prems(2)] Inr show ?thesis by simp
  qed
qed

lemma batchLoadIPFile_isl:
  "f \<in> set files \<Longrightarrow> \<forall>l. isl (netlist_LoadFromFile E l f) \<Longrightarrow>
   isl (batchLoadIPFile E l0 files)"
proof (induction files arbitrary: l0)
  case Nil
  then show ?case by simp
next
  case (Cons x xs)
  show ?case
  proof (cases "netlist_LoadFromFile E l0 x")
    case (Inl e)
    then show ?thesis by simp
  next
    case (Inr l1)
    have "f \<noteq> x"
    proof
      assume "f = x"
      with Cons.prems(2) have "isl (netlist_LoadFromFile E l0 x)" by blast
      with Inr show False by simp
    qed
    with Cons.prems(1) have "f \<in> set xs" by simp
    from Cons.IH[OF this Cons.prems(2)] Inr show ?thesis by simp
  qed
qed

lemma run_localDomain_isl:
  "isl (batchLoadDomainFile E (domain_NewMixMatcher E) (LocalDomain opts)) \<Longrightarrow>
   isl (run_localDomain E opts h st)"
  by (cases "LocalDomain opts") (auto simp: run_localDomain_def split: sum.splits)

lemma run_remoteDomain_isl:
  "isl (batchLoadDomainFile E (domain_NewMixMatcher E) (RemoteDomain opts)) \<Longrightarrow>
   isl (run_remoteDomain E opts h st)"
  by (cases "RemoteDomain opts") (auto simp: run_remoteDomain_def split: sum.splits)

lemma run_localIP_isl:
  "isl (batchLoadIPFile E (netlist_NewList E) (LocalIP opts)) \<Longrightarrow>
   isl (run_localIP E opts h st)"
  by (auto simp: run_localIP_def split: sum.splits)

lemma isl_andThen_left: "isl r \<Longrightarrow> isl (andThen r f)"
  by (simp add: andThen_isl)

lemma isl_andThen_right: "(\<And>x. isl (f x)) \<Longrightarrow> isl (andThen r f)"
  by (simp add: andThen_isl)

text \<open>A step that fails whatever the state it starts in ends the run.\<close>

lemma run_isl_localUpstream:
  "(\<And>st. isl (run_upstream E Local 0 0 (LocalUpstream opts) st)) \<Longrightarrow> isl (run E opts)"
  by (simp add: run_def new_handler_def isl_andThen_left)

lemma run_isl_remoteUpstream:
  "(\<And>st. isl (run_upstream E Remote 0 0 (RemoteUpstream opts) st)) \<Longrightarrow> isl (run E opts)"
  by (simp add: run_def new_handler_def isl_andThen_left isl_andThen_right)

lemma run_isl_localDomain:
  "(\<And>st. isl (run_localDomain E opts 0 st)) \<Longrightarrow> isl (run E opts)"
  by (simp add: run_def new_handler_def isl_andThen_left isl_andThen_right)

lemma run_isl_remoteDomain:
  "(\<And>st. isl (run_remoteDomain E opts 0 st)) \<Longrightarrow> isl (run E opts)"
  by (simp add: run_def new_handler_def isl_andThen_left isl_andThen_right)

lemma run_isl_localIP:
  "(\<And>st. isl (run_localIP E opts 0 st)) \<Longrightarrow> isl (run E opts)"
  by (simp add: run_def new_handler_def isl_andThen_left isl_andThen_right)

lemma handle_eq: "x = wrapFU (endpoint x) (trusted x)" for x :: "'fu upstreamHandle"
  by (simp add: wrapFU_def)

lemma run_upstream_isl_ctor:
  "s \<in> set ss \<Longrightarrow> splitArgs E s = Inr (addr, socks5, netAddr) \<Longrightarrow>
   isl (upstream_NewFastUpstream E addr socks5 netAddr) \<Longrightarrow>
   isl (run_upstream E g h i ss st)"
proof (induction ss arbitrary: i st)
  case Nil
  then show ?case by simp
next
  case (Cons x xs)
  show ?case
  proof (cases "splitArgs E x")
    case (Inl err)
    then show ?thesis by simp
  next
    case (Inr t)
    obtain a b c where t: "t = (a, b, c)" by (cases t)
    show ?thesis
    proof (cases "upstream_NewFastUpstream E a b c")
      case (Inl err)
      with Inr t show ?thesis by simp
    next
      case fu: (Inr fu)
      have "s \<noteq> x"
      proof
        assume "s = x"
        with Cons.prems(2) Inr t have "a = addr" "b = socks5" "c = netAddr" by simp_all
        with Cons.prems(3) fu show False by simp
      qed
      with Cons.prems(1) have "s \<in> set xs" by simp
      from Cons.IH[OF this Cons.prems(2,3)] Inr t fu show ?thesis by simp
    qed
  qed
qed

section \<open>The example configuration runs\<close>

lemma example_splitArgs:
  "splitArgs example_env ''223.5.5.5'' = Inr (''udp://223.5.5.5'', '''', '''')"
  "splitArgs example_env ''tcp://8.8.8.8?socks5=127.0.0.1:1080'' =
     Inr (''tcp://8.8.8.8'', ''127.0.0.1:1080'', '''')"
  by (simp_all add: splitArgs_def example_env_def example_Parse_def example_URL_def
        URL_Query_def example_ParseQuery_def Values_Get_def example_String_def)

lemma example_env_simps:
  "url_Parse example_env = example_Parse"
  "url_ParseQuery example_env = example_ParseQuery"
  "url_String example_env = example_String"
  "upstream_NewFastUpstream example_env = (\<lambda>addr socks5 netAddr. Inr (addr, socks5, netAddr))"
  "domain_NewMixMatcher example_env = []"
  "domain_LoadFromFile example_env = example_LoadFromFile"
  "MixMatcher_Len example_env = length"
  "netlist_NewList example_env = []"
  "netlist_LoadFromFile example_env = example_LoadIP"
  "List_Sort example_env = sort"
  "List_Len example_env = length"
  by (simp_all add: example_env_def)

lemmas example_eval =
  run_def new_handler_def example_opts_def andThen_def example_splitArgs
  run_cache_def assign_def Infof_def wrapFU_def
  run_localDomain_def run_remoteDomain_def run_localIP_def
  run_localLatency_def run_servers_def server_NewServer_def
  mem_cache_NewMemCache_def go_div_def time_Minute_def time_Second_def time_Millisecond_def
  time_Microsecond_def time_Nanosecond_def time_Duration_def word_sless_alt
  example_env_simps example_LoadFromFile_def example_LoadIP_def

lemma example_run: "run example_env example_opts = Inr (0, example_state)"
  by (simp add: example_eval example_state_def)

lemma not_isl_run:
  "\<not> isl r \<Longrightarrow> r = Inr (fst (projr r), snd (projr r))"
  by (cases r) simp_all

lemma example_flags: "flags_Parse example_args = Inr example_opts"
  by (simp add: flags_Parse_def example_args_def example_opts_def)

lemma example_main: "main example_env example_args = Serving (0, example_state)"
  by (simp add: main_def example_flags example_run)

lemma example_env_no_udp_simps:
  "url_Parse example_env_no_udp = example_Parse"
  "url_ParseQuery example_env_no_udp = example_ParseQuery"
  "url_String example_env_no_udp = example_String"
  "upstream_NewFastUpstream example_env_no_udp =
     (\<lambda>addr socks5 netAddr.
          if prefix ''udp://'' addr then Inl (LibError ''unsupported protocol'')
          else Inr (addr, socks5, netAddr))"
  "domain_NewMixMatcher example_env_no_udp = []"
  "domain_LoadFromFile example_env_no_udp = example_LoadFromFile"
  "MixMatcher_Len example_env_no_udp = length"
  "netlist_NewList example_env_no_udp = []"
  "netlist_LoadFromFile example_env_no_udp = example_LoadIP"
  "List_Sort example_env_no_udp = sort"
  "List_Len example_env_no_udp = length"
  by (simp_all add: example_env_no_udp_def example_env_def)

lemma example_splitArgs_no_udp:
  "splitArgs example_env_no_udp ''223.5.5.5'' = Inr (''udp://223.5.5.5'', '''', '''')"
  "splitArgs example_env_no_udp ''tcp://8.8.8.8?socks5=127.0.0.1:1080'' =
     Inr (''tcp://8.8.8.8'', ''127.0.0.1:1080'', '''')"
  by (simp_all add: splitArgs_def example_env_no_udp_simps example_Parse_def example_URL_def
        URL_Query_def example_ParseQuery_def Values_Get_def example_String_def)

lemma example_run_no_udp:
  "run example_env_no_udp example_opts =
     Inl (FailedToLoadUpstream Local 0 (LibError ''unsupported protocol''))"
  "run example_env_no_udp
     (example_opts\<lparr>LocalUpstream := [''tcp://8.8.8.8?socks5=127.0.0.1:1080'']\<rparr>) =
     Inl (FailedToLoadUpstream Remote 1 (LibError ''unsupported protocol''))"
  by (simp_all add: run_def new_handler_def example_opts_def andThen_def
        example_splitArgs_no_udp run_cache_def assign_def wrapFU_def
        example_env_no_udp_simps word_sless_alt)

section \<open>The claims\<close>

subsection \<open>C2: the cache is disabled exactly at capacities of 8 and below\<close>

text \<open>
  Claim C2. When \<^verbatim>\<open>run\<close> reaches the servers, the handler's \<open>cache\<close> field is nil (no
  cache object was constructed) if and only if the configured cache size, read as a
  signed integer, is at most 8; for every configured size greater than 8 the field holds
  a constructed cache.
\<close>

theorem cache_disabled_iff:
  assumes "run E opts = Inr (h, st)"
  shows "(cache (deref st h) = None \<longleftrightarrow> sint (CacheSize opts) \<le> 8) \<and>
         (8 < sint (CacheSize opts) \<longrightarrow> (\<exists>c. cache (deref st h) = Some c))"
  by (simp add: run_Inr_cache[OF assms])

text \<open>
  The example configuration asks for 1027 entries and gets a cache; with 8 entries it
  gets none.
\<close>

theorem cache_disabled_iff_witness:
  "run example_env example_opts = Inr (0, example_state) \<and>
   8 < sint (CacheSize example_opts) \<and>
   (\<exists>c. cache (deref example_state 0) = Some c) \<and>
   \<not> isl (run example_env (example_opts\<lparr>CacheSize := 8\<rparr>)) \<and>
   cache (deref (snd (projr (run example_env (example_opts\<lparr>CacheSize := 8\<rparr>))))
                (fst (projr (run example_env (example_opts\<lparr>CacheSize := 8\<rparr>))))) = None"
proof -
  let ?r = "run example_env (example_opts\<lparr>CacheSize := 8\<rparr>)"
  have ok: "\<not> isl ?r"
    by (simp add: example_eval)
  have "\<not> 8 < sint (CacheSize (example_opts\<lparr>CacheSize := 8\<rparr>))"
    by simp
  with cache_disabled_iff[OF not_isl_run[OF ok]]
  have "cache (deref (snd (projr ?r)) (fst (projr ?r))) = None"
    by simp
  moreover have "8 < sint (CacheSize example_opts)"
    by (simp add: example_opts_def)
  ultimately show ?thesis
    using cache_disabled_iff[OF example_run] example_run ok by simp
qed

subsection \<open>C3: eight shards of a eighth of the capacity each\<close>

text \<open>
  Claim C3. For every configured cache size \<open>c\<close> greater than 8, the cache is
  constructed with 8 shards of per-shard capacity \<open>c / 8\<close>, Go's quotient, which here is
  the floor of \<open>c / 8\<close>; the total capacity \<open>8 * (c div 8)\<close> is at most \<open>c\<close>, and less than
  \<open>c\<close> when 8 does not divide \<open>c\<close>.
\<close>

theorem cache_shards:
  assumes "run E opts = Inr (h, st)" and "8 < sint (CacheSize opts)"
  shows "\<exists>c. cache (deref st h) = Some c \<and> shardNum c = 8 \<and>
           sint (maxSizePerShard c) = sint (CacheSize opts) div 8 \<and>
           sint (shardNum c) * sint (maxSizePerShard c) = 8 * (sint (CacheSize opts) div 8) \<and>
           sint (shardNum c) * sint (maxSizePerShard c) \<le> sint (CacheSize opts) \<and>
           (\<not> 8 dvd sint (CacheSize opts) \<longrightarrow>
              sint (shardNum c) * sint (maxSizePerShard c) < sint (CacheSize opts))"
proof -
  let ?c = "mem_cache_NewMemCache 8 (go_div (CacheSize opts) 8) time_Minute"
  have c: "cache (deref st h) = Some ?c"
    using assms(2) by (simp add: run_Inr_cache[OF assms(1)])
  have n: "shardNum ?c = 8" and m: "maxSizePerShard ?c = go_div (CacheSize opts) 8"
    by (simp_all add: mem_cache_NewMemCache_def)
  have s: "sint (maxSizePerShard ?c) = sint (CacheSize opts) div 8"
    unfolding m by (rule sint_go_div_8[OF assms(2)])
  have le: "8 * (sint (CacheSize opts) div 8) \<le> sint (CacheSize opts)"
    by simp
  have lt: "8 * (sint (CacheSize opts) div 8) < sint (CacheSize opts)"
    if "\<not> 8 dvd sint (CacheSize opts)"
    using that by presburger
  show ?thesis using c n s le lt by simp
qed

text \<open>The example configuration: 1027 entries give 8 shards of 128, 1024 in all.\<close>

theorem cache_shards_witness:
  "run example_env example_opts = Inr (0, example_state) \<and>
   8 < sint (CacheSize example_opts) \<and>
   \<not> 8 dvd sint (CacheSize example_opts) \<and>
   (\<exists>c. cache (deref example_state 0) = Some c \<and> shardNum c = 8 \<and>
        sint (maxSizePerShard c) = sint (CacheSize example_opts) div 8 \<and>
        sint (shardNum c) * sint (maxSizePerShard c) = 8 * (sint (CacheSize example_opts) div 8) \<and>
        sint (shardNum c) * sint (maxSizePerShard c) < sint (CacheSize example_opts))"
proof -
  have big: "8 < sint (CacheSize example_opts)"
    by (simp add: example_opts_def)
  have nd: "\<not> 8 dvd sint (CacheSize example_opts)"
    by (simp add: example_opts_def)
  from cache_shards[OF example_run big] example_run big nd show ?thesis
    by blast
qed

subsection \<open>C1: the first upstream of each list is the trusted one\<close>

text \<open>
  Claim C1. When \<^verbatim>\<open>run\<close> reaches the servers, the handler holds one handle for each
  entry of the local upstream list and one for each entry of the remote upstream list,
  in the order of the lists; the handle at index \<open>k\<close> is \<^verbatim>\<open>wrapFU(fu, trusted)\<close> for the fast
  upstream \<open>fu\<close> built from entry \<open>k\<close>, and its \<open>trusted\<close> flag is true exactly when \<open>k = 0\<close>.
\<close>

theorem first_upstream_trusted:
  assumes "run E opts = Inr (h, st)"
  shows "length (localUpstream (deref st h)) = length (LocalUpstream opts) \<and>
         length (remoteUpstream (deref st h)) = length (RemoteUpstream opts) \<and>
         (\<forall>k<length (LocalUpstream opts).
            trusted (localUpstream (deref st h) ! k) = (k = 0) \<and>
            (\<exists>addr socks5 netAddr fu.
               splitArgs E (LocalUpstream opts ! k) = Inr (addr, socks5, netAddr) \<and>
               upstream_NewFastUpstream E addr socks5 netAddr = Inr fu \<and>
               localUpstream (deref st h) ! k = wrapFU fu (k = 0))) \<and>
         (\<forall>k<length (RemoteUpstream opts).
            trusted (remoteUpstream (deref st h) ! k) = (k = 0) \<and>
            (\<exists>addr socks5 netAddr fu.
               splitArgs E (RemoteUpstream opts ! k) = Inr (addr, socks5, netAddr) \<and>
               upstream_NewFastUpstream E addr socks5 netAddr = Inr fu \<and>
               remoteUpstream (deref st h) ! k = wrapFU fu (k = 0)))"
proof -
  note u = run_Inr_upstreams[OF assms]
  have l: "trusted (localUpstream (deref st h) ! k) = (k = 0) \<and>
            (\<exists>addr socks5 netAddr fu.
               splitArgs E (LocalUpstream opts ! k) = Inr (addr, socks5, netAddr) \<and>
               upstream_NewFastUpstream E addr socks5 netAddr = Inr fu \<and>
               localUpstream (deref st h) ! k = wrapFU fu (k = 0))"
    if "k < length (LocalUpstream opts)" for k
  proof -
    from u(3) that obtain addr socks5 netAddr where
      t: "trusted (localUpstream (deref st h) ! k) = (k = 0)" and
      s: "splitArgs E (LocalUpstream opts ! k) = Inr (addr, socks5, netAddr)" and
      n: "upstream_NewFastUpstream E addr socks5 netAddr =
            Inr (endpoint (localUpstream (deref st h) ! k))"
      by blast
    have "localUpstream (deref st h) ! k =
            wrapFU (endpoint (localUpstream (deref st h) ! k)) (k = 0)"
      using handle_eq[of "localUpstream (deref st h) ! k"] t by simp
    with t s n show ?thesis by blast
  qed
  have r: "trusted (remoteUpstream (deref st h) ! k) = (k = 0) \<and>
            (\<exists>addr socks5 netAddr fu.
               splitArgs E (RemoteUpstream opts ! k) = Inr (addr, socks5, netAddr) \<and>
               upstream_NewFastUpstream E addr socks5 netAddr = Inr fu \<and>
               remoteUpstream (deref st h) ! k = wrapFU fu (k = 0))"
    if "k < length (RemoteUpstream opts)" for k
  proof -
    from u(4) that obtain addr socks5 netAddr where
      t: "trusted (remoteUpstream (deref st h) ! k) = (k = 0)" and
      s: "splitArgs E (RemoteUpstream opts ! k) = Inr (addr, socks5, netAddr)" and
      n: "upstream_NewFastUpstream E addr socks5 netAddr =
            Inr (endpoint (remoteUpstream (deref st h) ! k))"
      by blast
    have "remoteUpstream (deref st h) ! k =
            wrapFU (endpoint (remoteUpstream (deref st h) ! k)) (k = 0)"
      using handle_eq[of "remoteUpstream (deref st h) ! k"] t by simp
    with t s n show ?thesis by blast
  qed
  from u(1,2) l r show ?thesis by blast
qed

text \<open>In the example both lists have two entries, and the flags are true, false.\<close>

theorem first_upstream_trusted_witness:
  "run example_env example_opts = Inr (0, example_state) \<and>
   length (LocalUpstream example_opts) = 2 \<and>
   length (RemoteUpstream example_opts) = 2 \<and>
   map trusted (localUpstream (deref example_state 0)) = [True, False] \<and>
   map trusted (remoteUpstream (deref example_state 0)) = [True, False]"
proof -
  note t = first_upstream_trusted[OF example_run]
  have n: "length (LocalUpstream example_opts) = 2" "length (RemoteUpstream example_opts) = 2"
    by (simp_all add: example_opts_def)
  have l0: "trusted (localUpstream (deref example_state 0) ! 0) = True"
   and l1: "trusted (localUpstream (deref example_state 0) ! 1) = False"
   and r0: "trusted (remoteUpstream (deref example_state 0) ! 0) = True"
   and r1: "trusted (remoteUpstream (deref example_state 0) ! 1) = False"
    using t n by simp_all
  have ll: "length (localUpstream (deref example_state 0)) = 2"
   and lr: "length (remoteUpstream (deref example_state 0)) = 2"
    using t n by simp_all
  have "map trusted (localUpstream (deref example_state 0)) = [True, False]"
    using ll l0 l1 by (intro nth_equalityI) (auto simp: less_Suc_eq numeral_2_eq_2)
  moreover have "map trusted (remoteUpstream (deref example_state 0)) = [True, False]"
    using lr r0 r1 by (intro nth_equalityI) (auto simp: less_Suc_eq numeral_2_eq_2)
  ultimately show ?thesis using example_run n by simp
qed

subsection \<open>C4: the latency budget is the configured number of milliseconds\<close>

text \<open>
  Claim C4, as stated, says that for every configured integer \<open>v\<close> the handler's
  \<open>localLatency\<close> is \<open>v\<close> milliseconds. The field is the 64-bit product
  \<^verbatim>\<open>time.Millisecond * time.Duration(v)\<close>, which wraps around when \<open>v\<close> times 1000000
  leaves the range of \<^verbatim>\<open>int64\<close>: configured with 9223372036855 milliseconds, the example
  starts with a negative budget.
\<close>

theorem local_latency_counterexample:
  "\<not> isl (run example_env (example_opts\<lparr>LocalLatency := 9223372036855\<rparr>)) \<and>
   sint (LocalLatency (example_opts\<lparr>LocalLatency := 9223372036855\<rparr>)) = 9223372036855 \<and>
   sint (localLatency (deref
      (snd (projr (run example_env (example_opts\<lparr>LocalLatency := 9223372036855\<rparr>))))
      (fst (projr (run example_env (example_opts\<lparr>LocalLatency := 9223372036855\<rparr>))))))
     = - 9223372036854551616 \<and>
   sint (localLatency (deref
      (snd (projr (run example_env (example_opts\<lparr>LocalLatency := 9223372036855\<rparr>))))
      (fst (projr (run example_env (example_opts\<lparr>LocalLatency := 9223372036855\<rparr>))))))
     \<noteq> 1000000 * sint (LocalLatency (example_opts\<lparr>LocalLatency := 9223372036855\<rparr>))"
proof -
  let ?r = "run example_env (example_opts\<lparr>LocalLatency := 9223372036855\<rparr>)"
  have ok: "\<not> isl ?r"
    by (simp add: example_eval)
  have "localLatency (deref (snd (projr ?r)) (fst (projr ?r))) =
          time_Millisecond * time_Duration 9223372036855"
    using run_Inr_localLatency[OF not_isl_run[OF ok]] by simp
  then have "sint (localLatency (deref (snd (projr ?r)) (fst (projr ?r)))) = - 9223372036854551616"
    by (simp add: time_Millisecond_def time_Microsecond_def time_Nanosecond_def
          time_Duration_def)
  with ok show ?thesis by simp
qed

text \<open>
  Claim C4, amended. The handler's \<open>localLatency\<close> is the 64-bit product
  \<^verbatim>\<open>time.Millisecond * time.Duration(v)\<close> of the configured value \<open>v\<close>, with no clamping:
  zero stays zero and a negative value stays negative. It is \<open>v\<close> milliseconds, that is
  \<open>1000000 * v\<close> nanoseconds, exactly when \<open>v\<close> lies between -9223372036854 and
  9223372036854.
\<close>

theorem local_latency_milliseconds:
  assumes "run E opts = Inr (h, st)"
  shows "localLatency (deref st h) = time_Millisecond * time_Duration (LocalLatency opts) \<and>
         (sint (localLatency (deref st h)) = 1000000 * sint (LocalLatency opts) \<longleftrightarrow>
            - 9223372036854 \<le> sint (LocalLatency opts) \<and>
            sint (LocalLatency opts) \<le> 9223372036854) \<and>
         (- 9223372036854 \<le> sint (LocalLatency opts) \<and>
          sint (LocalLatency opts) \<le> 9223372036854 \<longrightarrow>
            sint (localLatency (deref st h)) = 1000000 * sint (LocalLatency opts))"
  by (simp add: run_Inr_localLatency[OF assms] sint_Millisecond_times)

text \<open>The example asks for 50 milliseconds; asked for -3, it starts with -3000000 ns.\<close>

theorem local_latency_milliseconds_witness:
  "run example_env example_opts = Inr (0, example_state) \<and>
   sint (LocalLatency example_opts) = 50 \<and>
   sint (localLatency (deref example_state 0)) = 50000000 \<and>
   \<not> isl (run example_env (example_opts\<lparr>LocalLatency := - 3\<rparr>)) \<and>
   sint (localLatency (deref
      (snd (projr (run example_env (example_opts\<lparr>LocalLatency := - 3\<rparr>))))
      (fst (projr (run example_env (example_opts\<lparr>LocalLatency := - 3\<rparr>)))))) = - 3000000"
proof -
  let ?r = "run example_env (example_opts\<lparr>LocalLatency := - 3\<rparr>)"
  have ok: "\<not> isl ?r"
    by (simp add: example_eval)
  have v: "sint (LocalLatency example_opts) = 50"
    by (simp add: example_opts_def)
  have a: "sint (localLatency (deref example_state 0)) = 50000000"
    using local_latency_milliseconds[OF example_run, THEN conjunct2, THEN conjunct2] v
    by simp
  have b: "sint (localLatency (deref (snd (projr ?r)) (fst (projr ?r)))) = - 3000000"
    using local_latency_milliseconds[OF not_isl_run[OF ok], THEN conjunct2, THEN conjunct2]
    by simp
  from example_run v a ok b show ?thesis by simp
qed

subsection \<open>C6: the netlist is sorted before the matcher is built\<close>

text \<open>
  Claim C6. When \<^verbatim>\<open>run\<close> reaches the servers, every local-IP file has been loaded
  into the netlist, and the A/AAAA matcher installed in the handler wraps the result of
  \<^verbatim>\<open>Sort\<close> on the netlist loaded from all of them. So whatever property \<^verbatim>\<open>Sort\<close>
  establishes on every list (here \<open>is_sorted\<close>) holds of the list the matcher wraps.
\<close>

theorem local_ip_sorted:
  assumes "run E opts = Inr (h, st)"
  shows "\<not> isl (batchLoadIPFile E (netlist_NewList E) (LocalIP opts)) \<and>
         localIP (deref st h) =
           Some (NewAAAAAIPMatcher (List_Sort E (projr
             (batchLoadIPFile E (netlist_NewList E) (LocalIP opts))))) \<and>
         ((\<forall>l. is_sorted (List_Sort E l)) \<longrightarrow>
            (\<exists>l. localIP (deref st h) = Some (NewAAAAAIPMatcher l) \<and> is_sorted l))"
  using run_Inr_loaded[OF assms] run_Inr_localIP[OF assms] by simp

text \<open>In the example \<^verbatim>\<open>Sort\<close> sorts a list of numbers, and the matcher wraps 1, 2, 3.\<close>

theorem local_ip_sorted_witness:
  "run example_env example_opts = Inr (0, example_state) \<and>
   (\<forall>l. sorted (List_Sort example_env l)) \<and>
   batchLoadIPFile example_env (netlist_NewList example_env) (LocalIP example_opts)
     = Inr [3, 1, 2] \<and>
   localIP (deref example_state 0) = Some (NewAAAAAIPMatcher [1, 2, 3]) \<and>
   (\<exists>l. localIP (deref example_state 0) = Some (NewAAAAAIPMatcher l) \<and> sorted l)"
proof -
  have s: "\<forall>l. sorted (List_Sort example_env l)"
    by (simp add: example_env_simps)
  have b: "batchLoadIPFile example_env (netlist_NewList example_env) (LocalIP example_opts)
     = Inr [3, 1, 2]"
    by (simp add: example_env_simps example_opts_def example_LoadIP_def)
  note t = local_ip_sorted[OF example_run, where is_sorted = sorted]
  have m: "localIP (deref example_state 0) = Some (NewAAAAAIPMatcher [1, 2, 3])"
    using t b by (simp add: example_env_simps)
  have e: "\<exists>l. localIP (deref example_state 0) = Some (NewAAAAAIPMatcher l) \<and> sorted l"
    using t s by blast
  from example_run s b m e show ?thesis by blast
qed

subsection \<open>C7: two servers, one handler\<close>

text \<open>
  Claim C7. When \<^verbatim>\<open>run\<close> reaches the point where the servers are started, it has
  created exactly two servers, the first for the network udp and the second for tcp, both
  for the configured server address and both holding the pointer \<open>h\<close> to the one handler
  object that \<^verbatim>\<open>run\<close> allocated.
\<close>

theorem two_servers_one_handler:
  assumes "run E opts = Inr (h, st)"
  shows "servers st =
           [\<lparr>network = ''udp'', address = ServerAddr opts, handler = h\<rparr>,
            \<lparr>network = ''tcp'', address = ServerAddr opts, handler = h\<rparr>] \<and>
         length (servers st) = 2 \<and>
         map handler (servers st) = [h, h] \<and>
         map address (servers st) = [ServerAddr opts, ServerAddr opts] \<and>
         h < length (heap st) \<and> length (heap st) = 1"
  using run_Inr_servers[OF assms] by (simp add: server_NewServer_def)

theorem two_servers_one_handler_witness:
  "run example_env example_opts = Inr (0, example_state) \<and>
   map network (servers example_state) = [''udp'', ''tcp''] \<and>
   map handler (servers example_state) = [0, 0] \<and>
   map address (servers example_state) = ['':53'', '':53''] \<and>
   length (heap example_state) = 1"
  using two_servers_one_handler[OF example_run] example_run
  by (simp add: example_opts_def)

subsection \<open>C9: no domain files, no matcher\<close>

text \<open>
  Claim C9. When \<^verbatim>\<open>run\<close> reaches the servers, the handler's local-domain matcher is
  nil if no local-domain file is configured, and its remote-domain matcher is nil if no
  remote-domain file is configured; a matcher is installed exactly when the list of files
  is not empty.
\<close>

theorem domain_matchers_nil:
  assumes "run E opts = Inr (h, st)"
  shows "(LocalDomain opts = [] \<longrightarrow> localDomain (deref st h) = None) \<and>
         (RemoteDomain opts = [] \<longrightarrow> remoteDomain (deref st h) = None) \<and>
         (localDomain (deref st h) = None \<longleftrightarrow> LocalDomain opts = []) \<and>
         (remoteDomain (deref st h) = None \<longleftrightarrow> RemoteDomain opts = [])"
  by (simp add: run_Inr_domains[OF assms])

text \<open>
  The example has no local-domain file and one remote-domain file; without the latter
  it has no remote-domain matcher either.
\<close>

theorem domain_matchers_nil_witness:
  "run example_env example_opts = Inr (0, example_state) \<and>
   LocalDomain example_opts = [] \<and>
   localDomain (deref example_state 0) = None \<and>
   remoteDomain (deref example_state 0) \<noteq> None \<and>
   \<not> isl (run example_env (example_opts\<lparr>RemoteDomain := []\<rparr>)) \<and>
   remoteDomain (deref
      (snd (projr (run example_env (example_opts\<lparr>RemoteDomain := []\<rparr>))))
      (fst (projr (run example_env (example_opts\<lparr>RemoteDomain := []\<rparr>))))) = None"
proof -
  let ?r = "run example_env (example_opts\<lparr>RemoteDomain := []\<rparr>)"
  have ok: "\<not> isl ?r"
    by (simp add: example_eval)
  have l: "LocalDomain example_opts = []" and r: "RemoteDomain example_opts \<noteq> []"
    by (simp_all add: example_opts_def)
  note t = domain_matchers_nil[OF example_run]
  have a: "localDomain (deref example_state 0) = None"
    using t l by blast
  have b: "remoteDomain (deref example_state 0) \<noteq> None"
    using t r by blast
  have c: "remoteDomain (deref (snd (projr ?r)) (fst (projr ?r))) = None"
    using domain_matchers_nil[OF not_isl_run[OF ok]] by simp
  from example_run l a b ok c show ?thesis by blast
qed

subsection \<open>C10: the default latency budget\<close>

text \<open>
  Claim C10. When the command line omits the local-latency flag and the process gets to
  serve, the handler's \<open>localLatency\<close> is exactly 50 milliseconds, 50000000 ns.
\<close>

theorem default_local_latency:
  assumes "main E a = Serving (h, st)" and "local_latency_flag a = None"
  shows "localLatency (deref st h) = 50 * time_Millisecond \<and>
         sint (localLatency (deref st h)) = 50000000"
proof -
  from assms(1) obtain opts where
    p: "flags_Parse a = Inr opts" and r: "run E opts = Inr (h, st)"
    by (auto simp: main_Serving)
  have "LocalLatency opts = 50"
    using p assms(2) by (rule flags_Parse_default)
  then have "localLatency (deref st h) = 50 * time_Millisecond"
    by (simp add: run_Inr_localLatency[OF r] time_Duration_def)
  then show ?thesis
    by (simp add: time_Millisecond_def time_Microsecond_def time_Nanosecond_def)
qed

theorem default_local_latency_witness:
  "main example_env example_args = Serving (0, example_state) \<and>
   local_latency_flag example_args = None \<and>
   localLatency (deref example_state 0) = 50 * time_Millisecond \<and>
   sint (localLatency (deref example_state 0)) = 50000000"
proof -
  have n: "local_latency_flag example_args = None"
    by (simp add: example_args_def)
  from default_local_latency[OF example_main n] example_main n show ?thesis
    by blast
qed

subsection \<open>C5: configuration errors end the process\<close>

text \<open>
  Claim C5. \<^verbatim>\<open>run\<close> ends the process with a fatal error, instead of reaching the
  servers, whenever some entry of the local or of the remote upstream list has an address
  that \<^verbatim>\<open>url.Parse\<close> rejects (after the implicit \<^verbatim>\<open>udp://\<close> is added), whenever some
  entry of either list parses but \<^verbatim>\<open>upstream.NewFastUpstream\<close> fails on its address, and
  whenever some configured local-domain, remote-domain or local-IP file fails to load
  (whatever was loaded before it), or the batch load of one of these lists fails.
\<close>

theorem configuration_errors_fatal:
  "((\<exists>s\<in>set (LocalUpstream opts).
        isl (url_Parse E (if strings_Contains s ''://'' then s else ''udp://'' @ s)))
      \<longrightarrow> isl (run E opts)) \<and>
   ((\<exists>s\<in>set (RemoteUpstream opts).
        isl (url_Parse E (if strings_Contains s ''://'' then s else ''udp://'' @ s)))
      \<longrightarrow> isl (run E opts)) \<and>
   ((\<exists>f\<in>set (LocalDomain opts). \<forall>m. isl (domain_LoadFromFile E m f))
      \<longrightarrow> isl (run E opts)) \<and>
   ((\<exists>f\<in>set (RemoteDomain opts). \<forall>m. isl (domain_LoadFromFile E m f))
      \<longrightarrow> isl (run E opts)) \<and>
   ((\<exists>f\<in>set (LocalIP opts). \<forall>l. isl (netlist_LoadFromFile E l f))
      \<longrightarrow> isl (run E opts)) \<and>
   (isl (batchLoadDomainFile E (domain_NewMixMatcher E) (LocalDomain opts))
      \<longrightarrow> isl (run E opts)) \<and>
   (isl (batchLoadDomainFile E (domain_NewMixMatcher E) (RemoteDomain opts))
      \<longrightarrow> isl (run E opts)) \<and>
   (isl (batchLoadIPFile E (netlist_NewList E) (LocalIP opts))
      \<longrightarrow> isl (run E opts)) \<and>
   ((\<exists>s\<in>set (LocalUpstream opts). \<exists>addr socks5 netAddr.
        splitArgs E s = Inr (addr, socks5, netAddr) \<and>
        isl (upstream_NewFastUpstream E addr socks5 netAddr))
      \<longrightarrow> isl (run E opts)) \<and>
   ((\<exists>s\<in>set (RemoteUpstream opts). \<exists>addr socks5 netAddr.
        splitArgs E s = Inr (addr, socks5, netAddr) \<and>
        isl (upstream_NewFastUpstream E addr socks5 netAddr))
      \<longrightarrow> isl (run E opts))"
proof (intro conjI impI)
  assume "\<exists>s\<in>set (LocalUpstream opts).
        isl (url_Parse E (if strings_Contains s ''://'' then s else ''udp://'' @ s))"
  then obtain s where "s \<in> set (LocalUpstream opts)" "isl (splitArgs E s)"
    by (auto simp: splitArgs_Inl)
  then show "isl (run E opts)"
    by (intro run_isl_localUpstream run_upstream_isl)
next
  assume "\<exists>s\<in>set (RemoteUpstream opts).
        isl (url_Parse E (if strings_Contains s ''://'' then s else ''udp://'' @ s))"
  then obtain s where "s \<in> set (RemoteUpstream opts)" "isl (splitArgs E s)"
    by (auto simp: splitArgs_Inl)
  then show "isl (run E opts)"
    by (intro run_isl_remoteUpstream run_upstream_isl)
next
  assume "\<exists>f\<in>set (LocalDomain opts). \<forall>m. isl (domain_LoadFromFile E m f)"
  then obtain f where "f \<in> set (LocalDomain opts)" "\<forall>m. isl (domain_LoadFromFile E m f)"
    by blast
  then show "isl (run E opts)"
    by (intro run_isl_localDomain run_localDomain_isl batchLoadDomainFile_isl)
next
  assume "\<exists>f\<in>set (RemoteDomain opts). \<forall>m. isl (domain_LoadFromFile E m f)"
  then obtain f where "f \<in> set (RemoteDomain opts)" "\<forall>m. isl (domain_LoadFromFile E m f)"
    by blast
  then show "isl (run E opts)"
    by (intro run_isl_remoteDomain run_remoteDomain_isl batchLoadDomainFile_isl)
next
  assume "\<exists>f\<in>set (LocalIP opts). \<forall>l. isl (netlist_LoadFromFile E l f)"
  then obtain f where "f \<in> set (LocalIP opts)" "\<forall>l. isl (netlist_LoadFromFile E l f)"
    by blast
  then show "isl (run E opts)"
    by (intro run_isl_localIP run_localIP_isl batchLoadIPFile_isl)
next
  assume "isl (batchLoadDomainFile E (domain_NewMixMatcher E) (LocalDomain opts))"
  then show "isl (run E opts)"
    by (intro run_isl_localDomain run_localDomain_isl)
next
  assume "isl (batchLoadDomainFile E (domain_NewMixMatcher E) (RemoteDomain opts))"
  then show "isl (run E opts)"
    by (intro run_isl_remoteDomain run_remoteDomain_isl)
next
  assume "isl (batchLoadIPFile E (netlist_NewList E) (LocalIP opts))"
  then show "isl (run E opts)"
    by (intro run_isl_localIP run_localIP_isl)
next
  assume "\<exists>s\<in>set (LocalUpstream opts). \<exists>addr socks5 netAddr.
        splitArgs E s = Inr (addr, socks5, netAddr) \<and>
        isl (upstream_NewFastUpstream E addr socks5 netAddr)"
  then obtain s addr socks5 netAddr where
    "s \<in> set (LocalUpstream opts)" "splitArgs E s = Inr (addr, socks5, netAddr)"
    "isl (upstream_NewFastUpstream E addr socks5 netAddr)"
    by blast
  then show "isl (run E opts)"
    by (intro run_isl_localUpstream run_upstream_isl_ctor)
next
  assume "\<exists>s\<in>set (RemoteUpstream opts). \<exists>addr socks5 netAddr.
        splitArgs E s = Inr (addr, socks5, netAddr) \<and>
        isl (upstream_NewFastUpstream E addr socks5 netAddr)"
  then obtain s addr socks5 netAddr where
    "s \<in> set (RemoteUpstream opts)" "splitArgs E s = Inr (addr, socks5, netAddr)"
    "isl (upstream_NewFastUpstream E addr socks5 netAddr)"
    by blast
  then show "isl (run E opts)"
    by (intro run_isl_remoteUpstream run_upstream_isl_ctor)
qed

text \<open>
  In the example, \<^verbatim>\<open>udp://not a url\<close> does not parse and \<^verbatim>\<open>missing.txt\<close> cannot be
  read: put into any of the five lists, each ends the run. With a constructor that
  refuses udp addresses, the udp entry of the local list ends the run at entry 0, and
  without it the udp entry of the remote list ends the run at entry 1.
\<close>

theorem configuration_errors_fatal_witness:
  "isl (url_Parse example_env ''udp://not a url'') \<and>
   (\<forall>m. isl (domain_LoadFromFile example_env m ''missing.txt'')) \<and>
   (\<forall>l. isl (netlist_LoadFromFile example_env l ''missing.txt'')) \<and>
   isl (run example_env (example_opts\<lparr>LocalUpstream := [''223.5.5.5'', ''not a url'']\<rparr>)) \<and>
   isl (run example_env (example_opts\<lparr>RemoteUpstream := [''223.5.5.5'', ''not a url'']\<rparr>)) \<and>
   isl (run example_env (example_opts\<lparr>LocalDomain := [''cn.txt'', ''missing.txt'']\<rparr>)) \<and>
   isl (run example_env (example_opts\<lparr>RemoteDomain := [''missing.txt'']\<rparr>)) \<and>
   isl (run example_env (example_opts\<lparr>LocalIP := [''cn.txt'', ''missing.txt'']\<rparr>)) \<and>
   \<not> isl (run example_env example_opts) \<and>
   splitArgs example_env_no_udp ''223.5.5.5'' = Inr (''udp://223.5.5.5'', '''', '''') \<and>
   isl (upstream_NewFastUpstream example_env_no_udp ''udp://223.5.5.5'' '''' '''') \<and>
   isl (run example_env_no_udp example_opts) \<and>
   run example_env_no_udp example_opts =
     Inl (FailedToLoadUpstream Local 0 (LibError ''unsupported protocol'')) \<and>
   isl (run example_env_no_udp
     (example_opts\<lparr>LocalUpstream := [''tcp://8.8.8.8?socks5=127.0.0.1:1080'']\<rparr>)) \<and>
   run example_env_no_udp
     (example_opts\<lparr>LocalUpstream := [''tcp://8.8.8.8?socks5=127.0.0.1:1080'']\<rparr>) =
     Inl (FailedToLoadUpstream Remote 1 (LibError ''unsupported protocol''))"
proof -
  have p: "isl (url_Parse example_env ''udp://not a url'')"
    by (simp add: example_env_simps example_Parse_def)
  have c: "\<not> strings_Contains ''not a url'' ''://''"
    by simp
  have d: "\<forall>m. isl (domain_LoadFromFile example_env m ''missing.txt'')"
    by (simp add: example_env_simps example_LoadFromFile_def)
  have n: "\<forall>l. isl (netlist_LoadFromFile example_env l ''missing.txt'')"
    by (simp add: example_env_simps example_LoadIP_def)
  have 1: "isl (run example_env (example_opts\<lparr>LocalUpstream := [''223.5.5.5'', ''not a url'']\<rparr>))"
    using configuration_errors_fatal
      [of "example_opts\<lparr>LocalUpstream := [''223.5.5.5'', ''not a url'']\<rparr>" example_env]
      p c by simp
  have 2: "isl (run example_env (example_opts\<lparr>RemoteUpstream := [''223.5.5.5'', ''not a url'']\<rparr>))"
    using configuration_errors_fatal
      [of "example_opts\<lparr>RemoteUpstream := [''223.5.5.5'', ''not a url'']\<rparr>" example_env]
      p c by simp
  have 3: "isl (run example_env (example_opts\<lparr>LocalDomain := [''cn.txt'', ''missing.txt'']\<rparr>))"
    using configuration_errors_fatal
      [of "example_opts\<lparr>LocalDomain := [''cn.txt'', ''missing.txt'']\<rparr>" example_env]
      d by simp
  have 4: "isl (run example_env (example_opts\<lparr>RemoteDomain := [''missing.txt'']\<rparr>))"
    using configuration_errors_fatal
      [of "example_opts\<lparr>RemoteDomain := [''missing.txt'']\<rparr>" example_env]
      d by simp
  have 5: "isl (run example_env (example_opts\<lparr>LocalIP := [''cn.txt'', ''missing.txt'']\<rparr>))"
    using configuration_errors_fatal
      [of "example_opts\<lparr>LocalIP := [''cn.txt'', ''missing.txt'']\<rparr>" example_env]
      n by simp
  have 6: "\<not> isl (run example_env example_opts)"
    by (simp add: example_run)
  have s: "splitArgs example_env_no_udp ''223.5.5.5'' = Inr (''udp://223.5.5.5'', '''', '''')"
    by (rule example_splitArgs_no_udp)
  have f: "isl (upstream_NewFastUpstream example_env_no_udp ''udp://223.5.5.5'' '''' '''')"
    by (simp add: example_env_no_udp_simps)
  have ml: "''223.5.5.5'' \<in> set (LocalUpstream example_opts)"
    by (simp add: example_opts_def)
  have mr: "''223.5.5.5'' \<in> set (RemoteUpstream
      (example_opts\<lparr>LocalUpstream := [''tcp://8.8.8.8?socks5=127.0.0.1:1080'']\<rparr>))"
    by (simp add: example_opts_def)
  have 7: "isl (run example_env_no_udp example_opts)"
    using configuration_errors_fatal[of example_opts example_env_no_udp] s f ml
    by blast
  have 8: "isl (run example_env_no_udp
     (example_opts\<lparr>LocalUpstream := [''tcp://8.8.8.8?socks5=127.0.0.1:1080'']\<rparr>))"
    using configuration_errors_fatal
      [of "example_opts\<lparr>LocalUpstream := [''tcp://8.8.8.8?socks5=127.0.0.1:1080'']\<rparr>"
          example_env_no_udp] s f mr
    by blast
  note e = example_run_no_udp
  from p d n 1 2 3 4 5 6 s f 7 e(1) 8 e(2) show ?thesis by blast
qed

subsection \<open>C8: splitArgs\<close>

text \<open>
  Claim C8. For every string \<open>s\<close>: if \<open>s\<close> does not contain \<^verbatim>\<open>://\<close>, \<^verbatim>\<open>splitArgs\<close>
  handles it as it handles \<^verbatim>\<open>udp://\<close> followed by \<open>s\<close>. If the string it parses (\<open>s\<close>,
  or \<open>s\<close> with the implicit scheme) parses as the URL \<open>u\<close>, the result is the triple of
  \<open>u\<close> rendered with an empty \<^verbatim>\<open>RawQuery\<close>, the query parameter \<^verbatim>\<open>socks5\<close> of \<open>u\<close> and the
  query parameter \<^verbatim>\<open>netaddr\<close> of \<open>u\<close>; if it does not parse, the result is the parser's
  error, wrapped.
\<close>

theorem splitArgs_spec:
  "(\<not> sublist ''://'' s \<longrightarrow> splitArgs E s = splitArgs E (''udp://'' @ s)) \<and>
   (\<forall>u. url_Parse E (if sublist ''://'' s then s else ''udp://'' @ s) = Inr u \<longrightarrow>
        splitArgs E s =
          Inr (url_String E (u\<lparr>RawQuery := ''''\<rparr>),
               Values_Get (URL_Query E u) ''socks5'',
               Values_Get (URL_Query E u) ''netaddr'')) \<and>
   (\<forall>err. url_Parse E (if sublist ''://'' s then s else ''udp://'' @ s) = Inl err \<longrightarrow>
        splitArgs E s = Inl (InvalidUpstreamAddress err))"
proof -
  have "strings_Contains (''udp://'' @ s) ''://''"
    by simp
  then show ?thesis
    by (auto simp: splitArgs_def Let_def strings_Contains_sublist)
qed

text \<open>
  In the example \<^verbatim>\<open>223.5.5.5\<close> gets the scheme udp, and the proxy of
  \<^verbatim>\<open>tcp://8.8.8.8?socks5=127.0.0.1:1080\<close> is split off its address.
\<close>

theorem splitArgs_spec_witness:
  "\<not> sublist ''://'' ''223.5.5.5'' \<and>
   splitArgs example_env ''223.5.5.5'' = splitArgs example_env ''udp://223.5.5.5'' \<and>
   splitArgs example_env ''223.5.5.5'' = Inr (''udp://223.5.5.5'', '''', '''') \<and>
   sublist ''://'' ''tcp://8.8.8.8?socks5=127.0.0.1:1080'' \<and>
   url_Parse example_env ''tcp://8.8.8.8?socks5=127.0.0.1:1080'' =
     Inr (example_URL ''tcp'' ''8.8.8.8'' ''socks5=127.0.0.1:1080'') \<and>
   splitArgs example_env ''tcp://8.8.8.8?socks5=127.0.0.1:1080'' =
     Inr (''tcp://8.8.8.8'', ''127.0.0.1:1080'', '''') \<and>
   url_Parse example_env ''udp://not a url'' = Inl (LibError ''parse error'') \<and>
   splitArgs example_env ''not a url'' =
     Inl (InvalidUpstreamAddress (LibError ''parse error''))"
proof -
  have a: "\<not> sublist ''://'' ''223.5.5.5''"
    unfolding strings_Contains_sublist[symmetric] by simp
  have b: "sublist ''://'' ''tcp://8.8.8.8?socks5=127.0.0.1:1080''"
    unfolding strings_Contains_sublist[symmetric] by simp
  have c: "\<not> sublist ''://'' ''not a url''"
    unfolding strings_Contains_sublist[symmetric] by simp
  have p1: "url_Parse example_env ''udp://223.5.5.5'' = Inr (example_URL ''udp'' ''223.5.5.5'' '''')"
    by (simp add: example_env_simps example_Parse_def)
  have p2: "url_Parse example_env ''tcp://8.8.8.8?socks5=127.0.0.1:1080'' =
     Inr (example_URL ''tcp'' ''8.8.8.8'' ''socks5=127.0.0.1:1080'')"
    by (simp add: example_env_simps example_Parse_def)
  have p3: "url_Parse example_env ''udp://not a url'' = Inl (LibError ''parse error'')"
    by (simp add: example_env_simps example_Parse_def)
  note t1 = splitArgs_spec[of "''223.5.5.5''" example_env]
  note t2 = splitArgs_spec[of "''tcp://8.8.8.8?socks5=127.0.0.1:1080''" example_env]
  note t3 = splitArgs_spec[of "''not a url''" example_env]
  have r0: "splitArgs example_env ''223.5.5.5'' = splitArgs example_env ''udp://223.5.5.5''"
    using t1 a by simp
  have q1: "url_Parse example_env
      (if sublist ''://'' ''223.5.5.5'' then ''223.5.5.5'' else ''udp://'' @ ''223.5.5.5'') =
      Inr (example_URL ''udp'' ''223.5.5.5'' '''')"
    using a p1 by simp
  have r1: "splitArgs example_env ''223.5.5.5'' = Inr (''udp://223.5.5.5'', '''', '''')"
    using t1[THEN conjunct2, THEN conjunct1, rule_format, OF q1]
    by (simp add: example_env_simps example_URL_def URL_Query_def example_ParseQuery_def
          Values_Get_def example_String_def)
  have q2: "url_Parse example_env
      (if sublist ''://'' ''tcp://8.8.8.8?socks5=127.0.0.1:1080''
       then ''tcp://8.8.8.8?socks5=127.0.0.1:1080''
       else ''udp://'' @ ''tcp://8.8.8.8?socks5=127.0.0.1:1080'') =
      Inr (example_URL ''tcp'' ''8.8.8.8'' ''socks5=127.0.0.1:1080'')"
    using b p2 by simp
  have r2: "splitArgs example_env ''tcp://8.8.8.8?socks5=127.0.0.1:1080'' =
     Inr (''tcp://8.8.8.8'', ''127.0.0.1:1080'', '''')"
    using t2[THEN conjunct2, THEN conjunct1, rule_format, OF q2]
    by (simp add: example_env_simps example_URL_def URL_Query_def example_ParseQuery_def
          Values_Get_def example_String_def)
  have q3: "url_Parse example_env
      (if sublist ''://'' ''not a url'' then ''not a url'' else ''udp://'' @ ''not a url'') =
      Inl (LibError ''parse error'')"
    using c p3 by simp
  have r3: "splitArgs example_env ''not a url'' =
     Inl (InvalidUpstreamAddress (LibError ''parse error''))"
    using t3[THEN conjunct2, THEN conjunct2, rule_format, OF q3] .
  from a r0 r1 b p2 r2 p3 r3 show ?thesis by blast
qed



end
